theory Spec2Isabelle
  imports Complex_Main
begin

section \<open>Python strings\<close>

text \<open>
  A Python \<^verbatim>\<open>str\<close> is modelled as a \<^typ>\<open>string\<close> whose characters are the code
  points below 256; text with higher code points is outside the model. The helpers
  below are the \<^verbatim>\<open>str\<close> methods the source calls.
\<close>

definition dq :: char where
  "dq = CHR 0x22"

definition backslash :: char where
  "backslash = CHR 0x5C"

definition newline :: char where
  "newline = CHR 0x0A"

text \<open>The characters \<^verbatim>\<open>str.strip\<close> removes: those with \<^verbatim>\<open>isspace()\<close> true.\<close>

definition py_isspace :: "char \<Rightarrow> bool" where
  "py_isspace c \<longleftrightarrow>
     c \<in> set [CHR 0x09, CHR 0x0A, CHR 0x0B, CHR 0x0C, CHR 0x0D, CHR 0x1C, CHR 0x1D,
               CHR 0x1E, CHR 0x1F, CHR 0x20, CHR 0x85, CHR 0xA0]"

definition lstrip :: "string \<Rightarrow> string" where
  "lstrip s = dropWhile py_isspace s"

definition rstrip :: "string \<Rightarrow> string" where
  "rstrip s = rev (dropWhile py_isspace (rev s))"

definition strip :: "string \<Rightarrow> string" where
  "strip s = lstrip (rstrip s)"

text \<open>\<^verbatim>\<open>s.rstrip(chars)\<close>\<close>

definition rstrip_chars :: "string \<Rightarrow> string \<Rightarrow> string" where
  "rstrip_chars s chars = rev (dropWhile (\<lambda>c. c \<in> set chars) (rev s))"

definition startswith :: "string \<Rightarrow> string \<Rightarrow> bool" where
  "startswith s p \<longleftrightarrow> take (length p) s = p"

definition endswith :: "string \<Rightarrow> string \<Rightarrow> bool" where
  "endswith s p \<longleftrightarrow> length p \<le> length s \<and> drop (length s - length p) s = p"

text \<open>\<^verbatim>\<open>sub in s\<close>\<close>

fun py_in :: "string \<Rightarrow> string \<Rightarrow> bool" where
  "py_in sub [] = (sub = [])"
| "py_in sub (c # cs) = (startswith (c # cs) sub \<or> py_in sub cs)"

text \<open>
  \<^verbatim>\<open>s.find(c)\<close> and \<^verbatim>\<open>s.rfind(c)\<close> for a one-character needle; \<open>None\<close> stands for
  the result \<open>-1\<close>.
\<close>

fun find_from :: "char \<Rightarrow> string \<Rightarrow> nat \<Rightarrow> nat option" where
  "find_from c [] i = None"
| "find_from c (x # xs) i = (if x = c then Some i else find_from c xs (Suc i))"

definition find :: "string \<Rightarrow> char \<Rightarrow> nat option" where
  "find s c = find_from c s 0"

definition rfind :: "string \<Rightarrow> char \<Rightarrow> nat option" where
  "rfind s c = (case find (rev s) c of None \<Rightarrow> None | Some j \<Rightarrow> Some (length s - 1 - j))"

definition count_char :: "string \<Rightarrow> char \<Rightarrow> nat" where
  "count_char s c = length (filter (\<lambda>x. x = c) s)"

text \<open>\<^verbatim>\<open>s.split(d)\<close> for a one-character separator, and \<^verbatim>\<open>sep.join(xs)\<close>.\<close>

fun split :: "string \<Rightarrow> char \<Rightarrow> string list" where
  "split [] d = [[]]"
| "split (c # cs) d =
     (if c = d then [] # split cs d
      else (case split cs d of [] \<Rightarrow> [[c]] | w # ws \<Rightarrow> (c # w) # ws))"

fun join :: "string \<Rightarrow> string list \<Rightarrow> string" where
  "join sep [] = []"
| "join sep [x] = x"
| "join sep (x # y # ys) = x @ sep @ join sep (y # ys)"

text \<open>\<^verbatim>\<open>s.lower()\<close> on code points below 256: A-Z and the accented capitals.\<close>

definition lower_char :: "char \<Rightarrow> char" where
  "lower_char c =
     (let n = (of_char c :: nat) in
      if (65 \<le> n \<and> n \<le> 90) \<or> (192 \<le> n \<and> n \<le> 214) \<or> (216 \<le> n \<and> n \<le> 222)
      then char_of (n + 32) else c)"

definition lower :: "string \<Rightarrow> string" where
  "lower s = map lower_char s"

text \<open>\<^verbatim>\<open>str(n)\<close> for an integer.\<close>

fun digits_of_nat :: "nat \<Rightarrow> string" where
  "digits_of_nat n =
     (if n < 10 then [char_of (48 + n)] else digits_of_nat (n div 10) @ [char_of (48 + n mod 10)])"

definition str_of_int :: "int \<Rightarrow> string" where
  "str_of_int i = (if i < 0 then CHR ''-'' # digits_of_nat (nat (- i)) else digits_of_nat (nat i))"

section \<open>Exceptions\<close>

text \<open>
  The Python exceptions the modelled code raises or catches, each with the text
  \<^verbatim>\<open>str(e)\<close> gives. A function that can raise returns \<open>exn + 'a\<close>, with \<open>Inl\<close> the
  exception.
\<close>

datatype exn =
    ValueError string
  | TypeError string
  | IndexError string
  | AttributeError string
  | UnboundLocalError string

fun exn_str :: "exn \<Rightarrow> string" where
  "exn_str (ValueError m) = m"
| "exn_str (TypeError m) = m"
| "exn_str (IndexError m) = m"
| "exn_str (AttributeError m) = m"
| "exn_str (UnboundLocalError m) = m"

section \<open>JSON values and \<^verbatim>\<open>json.loads\<close>\<close>

text \<open>
  The values \<^verbatim>\<open>json.loads\<close> returns. A decoded string is a list of code points (an
  escape \<^verbatim>\<open>\uXXXX\<close> can name any), a \<^verbatim>\<open>dict\<close> is a list of pairs in insertion order
  with one entry per key, and a float is the exact rational its literal denotes.
\<close>

type_synonym ustring = "nat list"

definition ustr :: "string \<Rightarrow> ustring" where
  "ustr s = map of_char s"

datatype nonfinite = NaN | PosInfinity | NegInfinity

datatype json =
    JNull
  | JBool bool
  | JInt int
  | JFloat rat
  | JNonFinite nonfinite
  | JStr ustring
  | JArr "json list"
  | JObj "(ustring \<times> json) list"

text \<open>\<^verbatim>\<open>d[k] = v\<close>: a new key goes last, an old key keeps its place.\<close>

fun dict_set :: "'k \<Rightarrow> 'v \<Rightarrow> ('k \<times> 'v) list \<Rightarrow> ('k \<times> 'v) list" where
  "dict_set k v [] = [(k, v)]"
| "dict_set k v ((k', v') # d) = (if k' = k then (k, v) # d else (k', v') # dict_set k v d)"

definition dict_get :: "('k \<times> 'v) list \<Rightarrow> 'k \<Rightarrow> 'v option" where
  "dict_get d k = map_of d k"

definition has_key :: "('k \<times> 'v) list \<Rightarrow> 'k \<Rightarrow> bool" where
  "has_key d k \<longleftrightarrow> map_of d k \<noteq> None"

text \<open>Python truthiness (\<^verbatim>\<open>if x\<close>, \<^verbatim>\<open>not x\<close>, \<^verbatim>\<open>x or y\<close>) of a JSON value.\<close>

fun truthy :: "json \<Rightarrow> bool" where
  "truthy JNull = False"
| "truthy (JBool b) = b"
| "truthy (JInt i) = (i \<noteq> 0)"
| "truthy (JFloat r) = (r \<noteq> 0)"
| "truthy (JNonFinite n) = True"
| "truthy (JStr s) = (s \<noteq> [])"
| "truthy (JArr xs) = (xs \<noteq> [])"
| "truthy (JObj d) = (d \<noteq> [])"

fun is_dict :: "json \<Rightarrow> bool" where
  "is_dict (JObj d) = True"
| "is_dict _ = False"

subsection \<open>The decoder\<close>

text \<open>
  \<^verbatim>\<open>json.loads\<close> is library code; it is modelled here as the automaton the decoder
  implements, reading the text one character at a time with a stack of the open
  containers. \<open>None\<close> is \<^verbatim>\<open>JSONDecodeError\<close>. The interpreter's recursion limit
  (a \<^verbatim>\<open>RecursionError\<close> on thousands of nested brackets) is not modelled.
\<close>

datatype frame =
    FArr "json list"
  | FObj "(ustring \<times> json) list" "ustring option"

datatype strsub = SPlain | SEsc | SHex "nat list"

datatype numsub = NSign | NZero | NInt | NDot | NFrac | NE | NESign | NExp

datatype mode =
    MValue
  | MValueOrClose
  | MKeyOrClose
  | MKey
  | MColon
  | MAfter
  | MStr bool "nat list" strsub bool
  | MNum numsub bool nat nat bool nat
  | MLit string json

type_synonym pstate = "mode \<times> frame list \<times> json option"

definition json_ws :: "char \<Rightarrow> bool" where
  "json_ws c \<longleftrightarrow> c = CHR 0x20 \<or> c = CHR 0x09 \<or> c = CHR 0x0A \<or> c = CHR 0x0D"

definition is_digit :: "char \<Rightarrow> bool" where
  "is_digit c \<longleftrightarrow> 48 \<le> (of_char c :: nat) \<and> (of_char c :: nat) \<le> 57"

definition digit_val :: "char \<Rightarrow> nat" where
  "digit_val c = of_char c - 48"

definition hex_val :: "char \<Rightarrow> nat option" where
  "hex_val c =
     (let n = (of_char c :: nat) in
      if 48 \<le> n \<and> n \<le> 57 then Some (n - 48)
      else if 97 \<le> n \<and> n \<le> 102 then Some (n - 87)
      else if 65 \<le> n \<and> n \<le> 70 then Some (n - 55)
      else None)"

text \<open>A finished value goes to the enclosing container, or is the result.\<close>

definition finish_value :: "json \<Rightarrow> frame list \<Rightarrow> json option \<Rightarrow> pstate option" where
  "finish_value v stack res =
     (case stack of
        [] \<Rightarrow> Some (MAfter, [], Some v)
      | FArr items # rest \<Rightarrow> Some (MAfter, FArr (v # items) # rest, res)
      | FObj pairs (Some k) # rest \<Rightarrow> Some (MAfter, FObj (dict_set k v pairs) None # rest, res)
      | FObj pairs None # rest \<Rightarrow> None)"

text \<open>The first character of a value, in the scanner's order of tests.\<close>

definition start_value :: "char \<Rightarrow> frame list \<Rightarrow> json option \<Rightarrow> pstate option" where
  "start_value c stack res =
     (if c = dq then Some (MStr False [] SPlain False, stack, res)
      else if c = CHR ''{'' then Some (MKeyOrClose, FObj [] None # stack, res)
      else if c = CHR ''['' then Some (MValueOrClose, FArr [] # stack, res)
      else if c = CHR ''n'' then Some (MLit ''ull'' JNull, stack, res)
      else if c = CHR ''t'' then Some (MLit ''rue'' (JBool True), stack, res)
      else if c = CHR ''f'' then Some (MLit ''alse'' (JBool False), stack, res)
      else if c = CHR ''-'' then Some (MNum NSign True 0 0 False 0, stack, res)
      else if c = CHR ''0'' then Some (MNum NZero False 0 0 False 0, stack, res)
      else if is_digit c then Some (MNum NInt False (digit_val c) 0 False 0, stack, res)
      else if c = CHR ''N'' then Some (MLit ''aN'' (JNonFinite NaN), stack, res)
      else if c = CHR ''I'' then Some (MLit ''nfinity'' (JNonFinite PosInfinity), stack, res)
      else None)"

text \<open>After a value: white space, a comma, or the bracket that closes the container.\<close>

definition after_value :: "char \<Rightarrow> frame list \<Rightarrow> json option \<Rightarrow> pstate option" where
  "after_value c stack res =
     (if json_ws c then Some (MAfter, stack, res)
      else (case stack of
        [] \<Rightarrow> None
      | FArr items # rest \<Rightarrow>
          if c = CHR '','' then Some (MValue, stack, res)
          else if c = CHR '']'' then finish_value (JArr (rev items)) rest res
          else None
      | FObj pairs k # rest \<Rightarrow>
          if c = CHR '','' then Some (MKey, stack, res)
          else if c = CHR ''}'' then finish_value (JObj pairs) rest res
          else None))"

text \<open>
  Inside a string literal. Control characters are refused (strict mode); the escapes are
  the one-letter ones and \<^verbatim>\<open>\uXXXX\<close> with four hexadecimal digits; a high surrogate
  escape directly followed by a low surrogate escape is one code point.
\<close>

definition simple_escape :: "char \<Rightarrow> nat option" where
  "simple_escape c =
     (if c = dq then Some 34
      else if c = backslash then Some 92
      else if c = CHR ''/'' then Some 47
      else if c = CHR ''b'' then Some 8
      else if c = CHR ''f'' then Some 12
      else if c = CHR ''n'' then Some 10
      else if c = CHR ''r'' then Some 13
      else if c = CHR ''t'' then Some 9
      else None)"

definition is_high_surrogate :: "nat \<Rightarrow> bool" where
  "is_high_surrogate n \<longleftrightarrow> 0xD800 \<le> n \<and> n \<le> 0xDBFF"

definition is_low_surrogate :: "nat \<Rightarrow> bool" where
  "is_low_surrogate n \<longleftrightarrow> 0xDC00 \<le> n \<and> n \<le> 0xDFFF"

definition join_surrogates :: "nat \<Rightarrow> nat \<Rightarrow> nat" where
  "join_surrogates h l = 0x10000 + (h - 0xD800) * 0x400 + (l - 0xDC00)"

definition hex4 :: "nat list \<Rightarrow> nat" where
  "hex4 ds = foldl (\<lambda>a d. a * 16 + d) 0 ds"

definition end_string :: "bool \<Rightarrow> nat list \<Rightarrow> frame list \<Rightarrow> json option \<Rightarrow> pstate option" where
  "end_string is_key acc stack res =
     (if is_key then
        (case stack of
           FObj pairs k # rest \<Rightarrow> Some (MColon, FObj pairs (Some (rev acc)) # rest, res)
         | _ \<Rightarrow> None)
      else finish_value (JStr (rev acc)) stack res)"

definition string_step ::
  "bool \<Rightarrow> nat list \<Rightarrow> strsub \<Rightarrow> bool \<Rightarrow> char \<Rightarrow> frame list \<Rightarrow> json option \<Rightarrow> pstate option" where
  "string_step is_key acc sub high c stack res =
     (case sub of
        SPlain \<Rightarrow>
          if c = dq then end_string is_key acc stack res
          else if c = backslash then Some (MStr is_key acc SEsc high, stack, res)
          else if (of_char c :: nat) < 32 then None
          else Some (MStr is_key (of_char c # acc) SPlain False, stack, res)
      | SEsc \<Rightarrow>
          if c = CHR ''u'' then Some (MStr is_key acc (SHex []) high, stack, res)
          else (case simple_escape c of
                  None \<Rightarrow> None
                | Some n \<Rightarrow> Some (MStr is_key (n # acc) SPlain False, stack, res))
      | SHex ds \<Rightarrow>
          (case hex_val c of
             None \<Rightarrow> None
           | Some d \<Rightarrow>
               if length ds < 3 then Some (MStr is_key acc (SHex (ds @ [d])) high, stack, res)
               else
                 (let n = hex4 (ds @ [d]) in
                  if high \<and> is_low_surrogate n then
                    Some (MStr is_key (join_surrogates (hd acc) n # tl acc) SPlain False, stack, res)
                  else Some (MStr is_key (n # acc) SPlain (is_high_surrogate n), stack, res))))"

text \<open>
  Inside a number: the literal is
  \<^verbatim>\<open>-?(0|[1-9][0-9]*)(\.[0-9]+)?([eE][-+]?[0-9]+)?\<close>. The decoder takes the longest
  prefix of that shape and then needs a delimiter, so a character that cannot continue
  the number is handed to the state after a value when the number is complete, and is an
  error when it is not.
\<close>

definition num_accepting :: "numsub \<Rightarrow> bool" where
  "num_accepting ns \<longleftrightarrow> ns = NZero \<or> ns = NInt \<or> ns = NFrac \<or> ns = NExp"

definition num_value :: "numsub \<Rightarrow> bool \<Rightarrow> nat \<Rightarrow> nat \<Rightarrow> bool \<Rightarrow> nat \<Rightarrow> json" where
  "num_value ns neg mant fd eneg ex =
     (if ns = NZero \<or> ns = NInt then JInt (if neg then - int mant else int mant)
      else
        (let m = (if neg then - rat_of_nat mant else rat_of_nat mant) / 10 ^ fd
         in JFloat (if eneg then m / 10 ^ ex else m * 10 ^ ex)))"

definition num_extend ::
  "numsub \<Rightarrow> bool \<Rightarrow> nat \<Rightarrow> nat \<Rightarrow> bool \<Rightarrow> nat \<Rightarrow> char \<Rightarrow> mode option" where
  "num_extend ns neg mant fd eneg ex c =
     (case ns of
        NSign \<Rightarrow>
          if c = CHR ''0'' then Some (MNum NZero neg 0 0 False 0)
          else if is_digit c then Some (MNum NInt neg (digit_val c) 0 False 0)
          else if c = CHR ''I'' then Some (MLit ''nfinity'' (JNonFinite NegInfinity))
          else None
      | NZero \<Rightarrow>
          if c = CHR ''.'' then Some (MNum NDot neg mant fd eneg ex)
          else if c = CHR ''e'' \<or> c = CHR ''E'' then Some (MNum NE neg mant fd eneg ex)
          else None
      | NInt \<Rightarrow>
          if is_digit c then Some (MNum NInt neg (mant * 10 + digit_val c) fd eneg ex)
          else if c = CHR ''.'' then Some (MNum NDot neg mant fd eneg ex)
          else if c = CHR ''e'' \<or> c = CHR ''E'' then Some (MNum NE neg mant fd eneg ex)
          else None
      | NDot \<Rightarrow>
          if is_digit c then Some (MNum NFrac neg (mant * 10 + digit_val c) (Suc fd) eneg ex)
          else None
      | NFrac \<Rightarrow>
          if is_digit c then Some (MNum NFrac neg (mant * 10 + digit_val c) (Suc fd) eneg ex)
          else if c = CHR ''e'' \<or> c = CHR ''E'' then Some (MNum NE neg mant fd eneg ex)
          else None
      | NE \<Rightarrow>
          if c = CHR ''+'' then Some (MNum NESign neg mant fd False ex)
          else if c = CHR ''-'' then Some (MNum NESign neg mant fd True ex)
          else if is_digit c then Some (MNum NExp neg mant fd eneg (digit_val c))
          else None
      | NESign \<Rightarrow>
          if is_digit c then Some (MNum NExp neg mant fd eneg (digit_val c))
          else None
      | NExp \<Rightarrow>
          if is_digit c then Some (MNum NExp neg mant fd eneg (ex * 10 + digit_val c))
          else None)"

definition number_step ::
  "numsub \<Rightarrow> bool \<Rightarrow> nat \<Rightarrow> nat \<Rightarrow> bool \<Rightarrow> nat \<Rightarrow> char \<Rightarrow> frame list \<Rightarrow> json option \<Rightarrow> pstate option" where
  "number_step ns neg mant fd eneg ex c stack res =
     (case num_extend ns neg mant fd eneg ex c of
        Some m \<Rightarrow> Some (m, stack, res)
      | None \<Rightarrow>
          if num_accepting ns then
            (case finish_value (num_value ns neg mant fd eneg ex) stack res of
               None \<Rightarrow> None
             | Some (m, stack', res') \<Rightarrow> after_value c stack' res')
          else None)"

definition literal_step :: "string \<Rightarrow> json \<Rightarrow> char \<Rightarrow> frame list \<Rightarrow> json option \<Rightarrow> pstate option" where
  "literal_step rest v c stack res =
     (case rest of
        [] \<Rightarrow> None
      | x # xs \<Rightarrow>
          if c = x then (if xs = [] then finish_value v stack res else Some (MLit xs v, stack, res))
          else None)"

fun json_step :: "pstate \<Rightarrow> char \<Rightarrow> pstate option" where
  "json_step (MValue, stack, res) c =
     (if json_ws c then Some (MValue, stack, res) else start_value c stack res)"
| "json_step (MValueOrClose, stack, res) c =
     (if json_ws c then Some (MValueOrClose, stack, res)
      else if c = CHR '']'' then
        (case stack of FArr items # rest \<Rightarrow> finish_value (JArr (rev items)) rest res | _ \<Rightarrow> None)
      else start_value c stack res)"
| "json_step (MKeyOrClose, stack, res) c =
     (if json_ws c then Some (MKeyOrClose, stack, res)
      else if c = CHR ''}'' then
        (case stack of FObj pairs k # rest \<Rightarrow> finish_value (JObj pairs) rest res | _ \<Rightarrow> None)
      else if c = dq then Some (MStr True [] SPlain False, stack, res)
      else None)"
| "json_step (MKey, stack, res) c =
     (if json_ws c then Some (MKey, stack, res)
      else if c = dq then Some (MStr True [] SPlain False, stack, res)
      else None)"
| "json_step (MColon, stack, res) c =
     (if json_ws c then Some (MColon, stack, res)
      else if c = CHR '':'' then Some (MValue, stack, res)
      else None)"
| "json_step (MAfter, stack, res) c = after_value c stack res"
| "json_step (MStr is_key acc sub high, stack, res) c = string_step is_key acc sub high c stack res"
| "json_step (MNum ns neg mant fd eneg ex, stack, res) c = number_step ns neg mant fd eneg ex c stack res"
| "json_step (MLit rest v, stack, res) c = literal_step rest v c stack res"

fun json_run :: "pstate \<Rightarrow> string \<Rightarrow> pstate option" where
  "json_run st [] = Some st"
| "json_run st (c # cs) = (case json_step st c of None \<Rightarrow> None | Some st' \<Rightarrow> json_run st' cs)"

text \<open>At the end of the text the value must be complete and nothing may be open.\<close>

fun json_finish :: "pstate \<Rightarrow> json option" where
  "json_finish (MAfter, [], res) = res"
| "json_finish (MNum ns neg mant fd eneg ex, [], res) =
     (if num_accepting ns then Some (num_value ns neg mant fd eneg ex) else None)"
| "json_finish _ = None"

definition json_loads :: "string \<Rightarrow> json option" where
  "json_loads s = (case json_run (MValue, [], None) s of None \<Rightarrow> None | Some st \<Rightarrow> json_finish st)"

section \<open>Tool functions (tools.py)\<close>

text \<open>
  Python's \<^verbatim>\<open>int(x)\<close> on a float drops the fractional part, that is, it rounds
  towards zero. Floats are modelled as exact rationals; the values \<^verbatim>\<open>nan\<close> and
  \<^verbatim>\<open>inf\<close> (on which \<^verbatim>\<open>int\<close> raises) and the rounding of the product to
  a double are outside the model.
\<close>

definition py_int :: "rat \<Rightarrow> int" where
  "py_int x = (if x < 0 then - \<lfloor>- x\<rfloor> else \<lfloor>x\<rfloor>)"

record sepsis_result =
  risk_score :: int
  score_category :: string

text \<open>
  \<^verbatim>\<open>score = (heart_rate // 10) + (respiratory_rate // 5) + int(lactate_level * 3)\<close>
  with \<^verbatim>\<open>//\<close> the floor division of Python integers, which is \<open>div\<close> on \<open>int\<close>.
  The blood pressure is accepted and ignored, as in the source.
\<close>

definition calculate_sepsis_risk :: "int \<Rightarrow> int \<Rightarrow> rat \<Rightarrow> int \<Rightarrow> sepsis_result" where
  "calculate_sepsis_risk heart_rate blood_pressure lactate_level respiratory_rate =
     (let score = (heart_rate div 10) + (respiratory_rate div 5) + py_int (lactate_level * 3);
          category = (if score \<ge> 20 then ''High Risk'' else ''Low Risk'')
      in \<lparr>risk_score = score, score_category = category\<rparr>)"

section \<open>JSON repair (utils.py)\<close>

subsection \<open>\<^verbatim>\<open>_repair_json\<close>\<close>

text \<open>
  The first loop of \<^verbatim>\<open>_repair_json\<close>: from the first brace on, count the braces outside
  string literals until the count returns to zero. The result is the final count and
  the index of the closing brace at which the loop broke, if it did.
\<close>

fun scan_braces :: "string \<Rightarrow> nat \<Rightarrow> int \<Rightarrow> bool \<Rightarrow> bool \<Rightarrow> int \<times> nat option" where
  "scan_braces [] i brace_count in_string escape_next = (brace_count, None)"
| "scan_braces (c # cs) i brace_count in_string escape_next =
     (if escape_next then scan_braces cs (Suc i) brace_count in_string False
      else if c = backslash then scan_braces cs (Suc i) brace_count in_string True
      else if c = dq then scan_braces cs (Suc i) brace_count (\<not> in_string) False
      else if \<not> in_string then
        (if c = CHR ''{'' then scan_braces cs (Suc i) (brace_count + 1) in_string False
         else if c = CHR ''}'' then
           (if brace_count - 1 = 0 then (brace_count - 1, Some i)
            else scan_braces cs (Suc i) (brace_count - 1) in_string False)
         else scan_braces cs (Suc i) brace_count in_string False)
      else scan_braces cs (Suc i) brace_count in_string False)"

text \<open>
  \<^verbatim>\<open>json_text[:end_idx+1] + "}" * brace_count\<close> when braces are open. \<^verbatim>\<open>end_idx\<close>
  starts as \<^verbatim>\<open>start_idx\<close> and changes only where the loop breaks.
\<close>

definition balance_braces :: "string \<Rightarrow> nat \<Rightarrow> string" where
  "balance_braces json_text start_idx =
     (case scan_braces (drop start_idx json_text) start_idx 0 False False of
        (brace_count, e) \<Rightarrow>
          (let end_idx = (case e of None \<Rightarrow> start_idx | Some i \<Rightarrow> i) in
           if brace_count > 0
           then take (end_idx + 1) json_text @ replicate (nat brace_count) (CHR ''}'')
           else json_text))"

text \<open>
  The second loop copies every line and follows the string state through it; the state
  is carried from line to line.
\<close>

fun scan_line :: "string \<Rightarrow> bool \<Rightarrow> bool \<Rightarrow> bool \<times> bool" where
  "scan_line [] in_string escape_next = (in_string, escape_next)"
| "scan_line (c # cs) in_string escape_next =
     (if escape_next then scan_line cs in_string False
      else if c = backslash then scan_line cs in_string True
      else if c = dq then scan_line cs (\<not> in_string) escape_next
      else scan_line cs in_string escape_next)"

text \<open>A line that ends inside a string literal gets a closing quote, before a trailing comma.\<close>

definition close_line :: "string \<Rightarrow> string" where
  "close_line repaired_line =
     (if endswith (rstrip repaired_line) '','' then
        rstrip_chars (rstrip repaired_line) '','' @ [dq, CHR '','']
      else repaired_line @ [dq])"

fun repair_lines :: "string list \<Rightarrow> bool \<Rightarrow> bool \<Rightarrow> string list \<times> bool" where
  "repair_lines [] in_string escape_next = ([], in_string)"
| "repair_lines (line # lines) in_string escape_next =
     (case scan_line line in_string escape_next of
        (in_string', escape_next') \<Rightarrow>
          if in_string' \<and> strip line \<noteq> [] \<and> \<not> endswith (rstrip line) [dq] then
            (case repair_lines lines False escape_next' of
               (rs, fin) \<Rightarrow> (close_line line # rs, fin))
          else
            (case repair_lines lines in_string' escape_next' of
               (rs, fin) \<Rightarrow> (line # rs, fin)))"

text \<open>
  The handler of \<^verbatim>\<open>_repair_json\<close>'s outer \<^verbatim>\<open>try\<close>: the longest prefix that parses
  once its open braces and brackets are closed. The body of the \<^verbatim>\<open>try\<close> is string
  arithmetic and a guarded \<^verbatim>\<open>json.loads\<close>, so in this model nothing reaches the
  handler; it is given for the validation it does before it returns.
\<close>

definition close_counts :: "string \<Rightarrow> string" where
  "close_counts test_json =
     (let open_braces = int (count_char test_json (CHR ''{'')) - int (count_char test_json (CHR ''}''));
          open_brackets = int (count_char test_json (CHR ''['')) - int (count_char test_json (CHR '']''));
          t1 = (if open_braces > 0 then test_json @ replicate (nat open_braces) (CHR ''}'') else test_json)
      in if open_brackets > 0 then t1 @ replicate (nat open_brackets) (CHR '']'') else t1)"

fun repair_json_handler :: "string \<Rightarrow> nat \<Rightarrow> string option" where
  "repair_json_handler json_text 0 = None"
| "repair_json_handler json_text (Suc i) =
     (let test_json = close_counts (take (Suc i) json_text) in
      if json_loads test_json \<noteq> None then Some test_json
      else repair_json_handler json_text i)"

text \<open>\<^verbatim>\<open>_repair_json\<close> (an Isabelle name cannot start with an underscore).\<close>

definition repair_json :: "string \<Rightarrow> string option" where
  "repair_json json_text =
     (if json_text = [] \<or> strip json_text = [] then None
      else (case find json_text (CHR ''{'') of
        None \<Rightarrow> None
      | Some start_idx \<Rightarrow>
          (let json_text' = balance_braces json_text start_idx in
           case repair_lines (split json_text' newline) False False of
             (repaired_lines, in_string) \<Rightarrow>
               (let repaired = join [newline] repaired_lines;
                    repaired' = (if in_string then repaired @ [dq] else repaired)
                in if json_loads repaired' \<noteq> None then Some repaired' else None))))"

subsection \<open>\<^verbatim>\<open>_repair_json_aggressive\<close>\<close>

text \<open>The unescaped quotes of one line; the escape flag starts afresh on every line.\<close>

fun quote_count :: "string \<Rightarrow> bool \<Rightarrow> nat" where
  "quote_count [] escaped = 0"
| "quote_count (c # cs) escaped =
     (if escaped then quote_count cs False
      else if c = backslash then quote_count cs True
      else if c = dq then Suc (quote_count cs False)
      else quote_count cs False)"

definition line_has_issue :: "string \<Rightarrow> bool" where
  "line_has_issue line \<longleftrightarrow> quote_count line False mod 2 = 1 \<and> \<not> endswith (rstrip line) [dq]"

definition fix_line :: "string \<Rightarrow> string" where
  "fix_line line =
     (if endswith (strip line) '','' then rstrip_chars (rstrip line) '','' @ [dq, CHR '','']
      else if py_in '':'' line \<and> \<not> endswith (strip line) [dq] then
        (case find line (CHR '':'') of
           None \<Rightarrow> line
         | Some colon_idx \<Rightarrow>
             (let value_part = strip (drop (colon_idx + 1) line) in
              if startswith value_part [dq] \<and> \<not> endswith value_part [dq] then
                take (colon_idx + 1) line @ [CHR '' '', dq]
                  @ rstrip_chars (rstrip (drop 1 value_part)) '','' @ [dq, CHR '','']
              else line))
      else line)"

fun aggressive_lines :: "string list \<Rightarrow> string list \<times> bool" where
  "aggressive_lines [] = ([], False)"
| "aggressive_lines (line # lines) =
     (case aggressive_lines lines of
        (rs, found_issue) \<Rightarrow>
          if line_has_issue line then (fix_line line # rs, True)
          else (line # rs, found_issue))"

definition close_open :: "string \<Rightarrow> string" where
  "close_open repaired =
     (let open_braces = int (count_char repaired (CHR ''{'')) - int (count_char repaired (CHR ''}''));
          open_brackets = int (count_char repaired (CHR ''['')) - int (count_char repaired (CHR '']''));
          r1 = (if open_braces > 0 then repaired @ [newline] @ replicate (nat open_braces) (CHR ''}'')
                else repaired)
      in if open_brackets > 0 then r1 @ replicate (nat open_brackets) (CHR '']'') else r1)"

definition repair_json_aggressive :: "string \<Rightarrow> string option" where
  "repair_json_aggressive json_text =
     (if json_text = [] \<or> strip json_text = [] then None
      else (case find json_text (CHR ''{'') of
        None \<Rightarrow> None
      | Some start_idx \<Rightarrow>
          (case aggressive_lines (split json_text newline) of
             (repaired_lines, found_issue) \<Rightarrow>
               if found_issue then
                 (let repaired = close_open (join [newline] repaired_lines) in
                  if json_loads repaired \<noteq> None then Some repaired else None)
               else None)))"

text \<open>
  The cascade as every caller writes it:
  \<^verbatim>\<open>repaired = _repair_json(t)\<close>, then
  \<^verbatim>\<open>if not repaired: repaired = _repair_json_aggressive(t)\<close>.
\<close>

definition repair_cascade :: "string \<Rightarrow> string option" where
  "repair_cascade json_text =
     (case repair_json json_text of
        None \<Rightarrow> repair_json_aggressive json_text
      | Some r \<Rightarrow> if r = [] then repair_json_aggressive json_text else Some r)"

section \<open>Merging the fallback results (app.py, \<^verbatim>\<open>main\<close>)\<close>

text \<open>
  The report kept in the session state is a \<^verbatim>\<open>dict\<close> or \<^verbatim>\<open>None\<close>; the fallback
  results are what \<^verbatim>\<open>_extract_outputs_with_gemini\<close> returned, a \<^verbatim>\<open>dict\<close> or
  \<^verbatim>\<open>None\<close>.
\<close>

type_synonym report = "(ustring \<times> json) list"

definition tvd_key :: ustring where
  "tvd_key = ustr ''tool_verification_data''"

text \<open>\<^verbatim>\<open>d.update(other)\<close>, also \<^verbatim>\<open>{**d, **other}\<close>: the keys of \<^verbatim>\<open>other\<close> are set one by one.\<close>

fun dict_update :: "('k \<times> 'v) list \<Rightarrow> ('k \<times> 'v) list \<Rightarrow> ('k \<times> 'v) list" where
  "dict_update d [] = d"
| "dict_update d ((k, v) # other) = dict_update (dict_set k v d) other"

text \<open>\<^verbatim>\<open>x or {}\<close>\<close>

definition or_empty :: "json \<Rightarrow> json" where
  "or_empty x = (if truthy x then x else JObj [])"

text \<open>\<^verbatim>\<open>d.get(k) is not None\<close>\<close>

definition get_is_not_none :: "report \<Rightarrow> ustring \<Rightarrow> bool" where
  "get_is_not_none d k = (case dict_get d k of None \<Rightarrow> False | Some JNull \<Rightarrow> False | Some v \<Rightarrow> True)"

text \<open>\<^verbatim>\<open>d.get(k)\<close> is truthy.\<close>

definition get_truthy :: "report \<Rightarrow> ustring \<Rightarrow> bool" where
  "get_truthy d k = (case dict_get d k of None \<Rightarrow> False | Some v \<Rightarrow> truthy v)"

text \<open>
  The test that sends the report to the fallback: no report, no differential diagnosis,
  or no risk score under one of the three recognised keys.
\<close>

definition has_risk_score :: "report option \<Rightarrow> bool" where
  "has_risk_score diagnostic_report =
     (let report = (case diagnostic_report of None \<Rightarrow> [] | Some r \<Rightarrow> r);
          tool_data = or_empty (case dict_get report tvd_key of None \<Rightarrow> JNull | Some v \<Rightarrow> v)
      in case tool_data of
           JObj td \<Rightarrow>
             get_is_not_none td (ustr ''sepsis_risk'') \<or> get_is_not_none td (ustr ''risk_score'')
               \<or> get_is_not_none td (ustr ''calculate_sepsis_risk'')
         | _ \<Rightarrow> False)"

definition needs_fallback :: "report option \<Rightarrow> bool" where
  "needs_fallback diagnostic_report \<longleftrightarrow>
     (case diagnostic_report of
        None \<Rightarrow> True
      | Some r \<Rightarrow> r = [] \<or> \<not> get_truthy r (ustr ''differential_diagnosis''))
     \<or> \<not> has_risk_score diagnostic_report"

text \<open>The message of the \<^verbatim>\<open>TypeError\<close> for \<^verbatim>\<open>{**x}\<close> when \<^verbatim>\<open>x\<close> is no mapping.\<close>

fun type_name :: "json \<Rightarrow> string" where
  "type_name JNull = ''NoneType''"
| "type_name (JBool b) = ''bool''"
| "type_name (JInt i) = ''int''"
| "type_name (JFloat r) = ''float''"
| "type_name (JNonFinite n) = ''float''"
| "type_name (JStr s) = ''str''"
| "type_name (JArr xs) = ''list''"
| "type_name (JObj d) = ''dict''"

definition not_a_mapping :: "json \<Rightarrow> string" where
  "not_a_mapping x = [CHR 0x27] @ type_name x @ [CHR 0x27] @ '' object is not a mapping''"

text \<open>
  The merge proper (the body of \<^verbatim>\<open>if fallback_results:\<close>). Unpacking a value that
  is not a mapping with \<^verbatim>\<open>**\<close> raises \<^verbatim>\<open>TypeError\<close>.
\<close>

definition merge_fallback :: "report option \<Rightarrow> report \<Rightarrow> exn + report" where
  "merge_fallback diagnostic_report fallback_results =
     (let report = (case diagnostic_report of None \<Rightarrow> [] | Some r \<Rightarrow> r) in
      case (dict_get fallback_results tvd_key, dict_get report tvd_key) of
        (Some new, Some existing) \<Rightarrow>
          (case (or_empty existing, or_empty new) of
             (JObj existing_tvd, JObj new_tvd) \<Rightarrow>
               (let report' = dict_set tvd_key (JObj (dict_update existing_tvd new_tvd)) report;
                    fallback_results_without_tvd = filter (\<lambda>(k, v). k \<noteq> tvd_key) fallback_results
                in Inr (dict_update report' fallback_results_without_tvd))
           | (JObj existing_tvd, other) \<Rightarrow> Inl (TypeError (not_a_mapping other))
           | (other, _) \<Rightarrow> Inl (TypeError (not_a_mapping other)))
      | _ \<Rightarrow> Inr (dict_update report fallback_results))"

text \<open>The whole step: the test, the fallback call (its result is \<open>fallback_results\<close>), the merge.\<close>

definition fallback_step :: "report option \<Rightarrow> report option \<Rightarrow> exn + report option" where
  "fallback_step diagnostic_report fallback_results =
     (if needs_fallback diagnostic_report then
        (case fallback_results of
           None \<Rightarrow> Inr diagnostic_report
         | Some f \<Rightarrow>
             if f = [] then Inr diagnostic_report
             else (case merge_fallback diagnostic_report f of
                     Inl e \<Rightarrow> Inl e
                   | Inr r \<Rightarrow> Inr (Some r)))
      else Inr diagnostic_report)"

section \<open>The model API: parts, contents, responses\<close>

text \<open>
  The objects of the \<^verbatim>\<open>google.genai\<close> SDK, as far as the source reads and builds
  them. Every attribute of a \<^verbatim>\<open>Part\<close> is optional. The source reads a response by
  attribute (\<^verbatim>\<open>getattr\<close>, \<^verbatim>\<open>hasattr\<close>), so \<^verbatim>\<open>text\<close> and \<^verbatim>\<open>candidates\<close> are
  independent fields here; \<open>None\<close> is the Python \<^verbatim>\<open>None\<close>.
\<close>

type_synonym kwargs = "(ustring \<times> json) list"

record function_call =
  fc_name :: string
  fc_args :: "kwargs option"

record part =
  p_text :: "string option"
  p_inline_data :: "(string \<times> string) option"
  p_function_call :: "function_call option"
  p_function_response :: "(string \<times> json) option"

definition text_part :: "string \<Rightarrow> part" where
  "text_part s = \<lparr>p_text = Some s, p_inline_data = None, p_function_call = None,
                   p_function_response = None\<rparr>"

text \<open>
  \<^verbatim>\<open>file_to_part\<close>: \<^verbatim>\<open>Part.from_bytes(data=base64.b64decode(base64_data), mime_type=...)\<close>.
  The part keeps the base-64 text that determines the bytes; an upload is encoded by the
  application itself, and malformed base-64 (on which \<^verbatim>\<open>b64decode\<close> raises) is outside
  the model.
\<close>

definition file_to_part :: "string \<Rightarrow> string \<Rightarrow> part" where
  "file_to_part base64_data mime_type =
     \<lparr>p_text = None, p_inline_data = Some (base64_data, mime_type), p_function_call = None,
      p_function_response = None\<rparr>"

record content =
  c_role :: string
  c_parts :: "part list option"

record candidate =
  cand_content :: "content option"

record response =
  r_text :: "string option"
  r_candidates :: "candidate list option"

text \<open>
  The conversation: \<^verbatim>\<open>build_patient_contents\<close> gives a list of parts, and the loop
  appends whole contents to it.
\<close>

datatype item = ItemPart part | ItemContent "content option"

datatype config = config_tool_turn | config_json_turn

text \<open>What one call of \<^verbatim>\<open>client.models.generate_content\<close> does.\<close>

datatype api_outcome =
    Returns "response option"
  | RaisesAPIError string string
  | RaisesException string

section \<open>The environment\<close>

text \<open>
  Everything outside the repository that the code calls. The model client is a script:
  the outcome of its n-th call, whatever the request was, so that a statement for every
  script is a statement for every behaviour of the model. \<^verbatim>\<open>get_gemini_client()\<close>
  gives the client or \<^verbatim>\<open>None\<close>. Invoking a tool (\<^verbatim>\<open>func(**func_args)\<close>) binds the
  arguments and runs the function; it returns a value or raises, \<open>Inl\<close> carrying the
  text of the exception. The remaining fields are library functions applied to values:
  \<^verbatim>\<open>str\<close> (of a value, and of a number of the vitals), \<^verbatim>\<open>json.dumps\<close>, the format
  \<^verbatim>\<open>.2f\<close>, the clock, and \<^verbatim>\<open>Part.from_function_response\<close> (absent in old SDKs, and
  able to raise). The last field is the model call inside \<^verbatim>\<open>preprocess_tabular_data\<close>:
  the text \<^verbatim>\<open>_get_response_text\<close> extracts, or \<open>None\<close> when the call raises or gives no
  text.
\<close>

record env =
  e_client :: "(nat \<Rightarrow> api_outcome) option"
  e_invoke :: "string \<Rightarrow> kwargs \<Rightarrow> string + json"
  e_str :: "json \<Rightarrow> string"
  e_dumps :: "json \<Rightarrow> string"
  e_fmt2f :: "rat \<Rightarrow> string"
  e_time :: "nat \<Rightarrow> rat"
  e_from_function_response :: "(string \<Rightarrow> json \<Rightarrow> part option) option"
  e_str_num :: "rat \<Rightarrow> string"
  e_lab_analysis :: "(string \<times> json) list \<Rightarrow> string option"

section \<open>Executing a tool call (utils.py)\<close>

text \<open>\<^verbatim>\<open>TOOL_CONFIG\<close>, by the names of its functions.\<close>

definition TOOL_CONFIG :: "string list" where
  "TOOL_CONFIG = [''calculate_sepsis_risk'', ''generate_vitals_visualization'']"

definition error_part :: "env \<Rightarrow> string \<Rightarrow> part" where
  "error_part ev error_msg = text_part (e_dumps ev (JObj [(ustr ''error'', JStr (ustr error_msg))]))"

text \<open>
  \<^verbatim>\<open>execute_function_call\<close> appends to the caller's log list; the model returns the
  part and the new log.
\<close>

definition execute_function_call :: "env \<Rightarrow> string \<Rightarrow> kwargs \<Rightarrow> string list \<Rightarrow> part \<times> string list" where
  "execute_function_call ev func_name func_args tool_logs =
     (if func_name \<notin> set TOOL_CONFIG then
        (let error_msg = ''Function '' @ func_name @ '' not found in TOOL_CONFIG'' in
         (error_part ev error_msg, tool_logs @ [''[ERROR] '' @ error_msg]))
      else
        (case e_invoke ev func_name func_args of
           Inr result \<Rightarrow>
             (let tool_logs' = tool_logs @
                    [''[OBSERVATION] Host executed '' @ func_name @ '': '' @ e_str ev result] in
              case e_from_function_response ev of
                Some from_function_response \<Rightarrow>
                  (case from_function_response func_name (JObj [(ustr ''result'', result)]) of
                     Some p \<Rightarrow> (p, tool_logs')
                   | None \<Rightarrow>
                       (text_part (''Function '' @ func_name @ '' returned: '' @ e_dumps ev result),
                        tool_logs'))
              | None \<Rightarrow>
                  (text_part (e_dumps ev
                     (JObj [(ustr ''function'', JStr (ustr func_name)), (ustr ''result'', result)])),
                   tool_logs'))
         | Inl e \<Rightarrow>
             (let error_msg = ''Execution of '' @ func_name @ '' failed: '' @ e in
              (error_part ev error_msg, tool_logs @ [''[ERROR] '' @ error_msg]))))"

text \<open>
  The loop over the requested calls in \<^verbatim>\<open>run_triage_agent\<close>:
  \<^verbatim>\<open>getattr(call, "args", {}) or {}\<close>, the action line, the execution, the part appended.
\<close>

definition call_args :: "function_call \<Rightarrow> kwargs" where
  "call_args call = (case fc_args call of None \<Rightarrow> [] | Some a \<Rightarrow> a)"

definition action_line :: "env \<Rightarrow> string \<Rightarrow> kwargs \<Rightarrow> string" where
  "action_line ev func_name func_args =
     ''[ACTION] Model requested: '' @ func_name @ ''('' @ e_dumps ev (JObj func_args) @ '')''"

fun execute_calls :: "env \<Rightarrow> function_call list \<Rightarrow> string list \<Rightarrow> part list \<times> string list" where
  "execute_calls ev [] tool_logs = ([], tool_logs)"
| "execute_calls ev (call # calls) tool_logs =
     (let func_name = fc_name call;
          func_args = call_args call;
          tool_logs1 = tool_logs @ [action_line ev func_name func_args]
      in case execute_function_call ev func_name func_args tool_logs1 of
           (response_part, tool_logs2) \<Rightarrow>
             (case execute_calls ev calls tool_logs2 of
                (function_response_parts, tool_logs3) \<Rightarrow>
                  (response_part # function_response_parts, tool_logs3)))"

section \<open>Building the first message (utils.py)\<close>

text \<open>
  The labs are a \<^verbatim>\<open>dict\<close> from names to values. A vitals entry has the three fields of
  the extraction schema, a time label and two numbers, each possibly \<^verbatim>\<open>None\<close>.
\<close>

type_synonym labs = "(string \<times> json) list"

record vital =
  v_time :: "string option"
  SpO2 :: "rat option"
  HeartRate :: "rat option"

text \<open>\<^verbatim>\<open>v == 0\<close>: the integer, the float, and \<^verbatim>\<open>False\<close>.\<close>

fun is_zero :: "json \<Rightarrow> bool" where
  "is_zero (JInt i) = (i = 0)"
| "is_zero (JFloat r) = (r = 0)"
| "is_zero (JBool b) = (\<not> b)"
| "is_zero _ = False"

subsection \<open>\<^verbatim>\<open>preprocess_tabular_data\<close>\<close>

definition lab_listing :: "env \<Rightarrow> labs \<Rightarrow> string" where
  "lab_listing ev valid_labs =
     ''Tabular Data Feature: Lab values extracted from image: ''
       @ join '', '' (map (\<lambda>(k, v). k @ '': '' @ e_str ev v) valid_labs) @ ''.''"

definition preprocess_tabular_data :: "env \<Rightarrow> labs option \<Rightarrow> string" where
  "preprocess_tabular_data ev labs_json =
     (case labs_json of
        None \<Rightarrow> ''Tabular Data Feature: No lab data available.''
      | Some l \<Rightarrow>
          if l = [] then ''Tabular Data Feature: No lab data available.''
          else
            (let valid_labs = filter (\<lambda>(k, v). v \<noteq> JNull \<and> \<not> is_zero v \<and> v \<noteq> JStr []) l in
             if valid_labs = [] then ''Tabular Data Feature: No lab data available.''
             else if e_client ev = None then lab_listing ev valid_labs
             else
               (case e_lab_analysis ev valid_labs of
                  None \<Rightarrow> lab_listing ev valid_labs
                | Some analysis_text \<Rightarrow>
                    if analysis_text = [] then lab_listing ev valid_labs
                    else if \<not> startswith analysis_text ''Tabular Data Feature:''
                    then strip (''Tabular Data Feature: '' @ analysis_text)
                    else strip analysis_text)))"

subsection \<open>\<^verbatim>\<open>preprocess_timeseries_data\<close>\<close>

definition duration_text :: "nat \<Rightarrow> string" where
  "duration_text num_points =
     (let duration_hours = int num_points - 1 in
      if duration_hours = 1 then ''1 hour''
      else if duration_hours < 4 then str_of_int duration_hours @ '' hours''
      else str_of_int duration_hours @ '' measurement intervals'')"

definition preprocess_timeseries_data :: "env \<Rightarrow> vital list option \<Rightarrow> string" where
  "preprocess_timeseries_data ev vitals_list =
     (case vitals_list of
        None \<Rightarrow> ''Time-Series Feature: Insufficient vitals data for trend analysis.''
      | Some vs \<Rightarrow>
          if length vs < 2 then ''Time-Series Feature: Insufficient vitals data for trend analysis.''
          else
            (let valid_vitals = filter (\<lambda>v. SpO2 v \<noteq> None \<or> HeartRate v \<noteq> None) vs in
             if length valid_vitals < 2
             then ''Time-Series Feature: Insufficient valid vitals data for trend analysis.''
             else
               (let first = hd valid_vitals; last_v = last valid_vitals;
                    duration = duration_text (length vs);
                    spo2_text = (case (SpO2 first, SpO2 last_v) of
                       (Some spo2_start, Some spo2_end) \<Rightarrow>
                         ''SpO2 declined from '' @ e_str_num ev spo2_start @ ''% to ''
                           @ e_str_num ev spo2_end @ ''%''
                     | _ \<Rightarrow> ''SpO2 data unavailable'');
                    hr_text = (case (HeartRate first, HeartRate last_v) of
                       (Some hr_start, Some hr_end) \<Rightarrow>
                         ''Heart Rate increased from '' @ e_str_num ev hr_start @ '' to ''
                           @ e_str_num ev hr_end
                     | _ \<Rightarrow> ''Heart Rate data unavailable'')
                in case (SpO2 first, SpO2 last_v, HeartRate first, HeartRate last_v) of
                     (Some spo2_start, Some spo2_end, Some hr_start, Some hr_end) \<Rightarrow>
                       (let spo2_drop = spo2_start - spo2_end; hr_increase = hr_end - hr_start in
                        ''Time-Series Feature: Vitals trend shows a progressive deterioration over ''
                          @ duration @ ''. '' @ spo2_text @ '' and '' @ hr_text @ ''. ''
                          @ (if spo2_drop \<ge> 10 \<and> hr_increase \<ge> 30
                             then ''This indicates ongoing respiratory and circulatory distress.''
                             else if spo2_drop \<ge> 5
                             then ''This indicates developing respiratory compromise.''
                             else if hr_increase \<ge> 30
                             then ''This indicates significant cardiovascular stress or compensation.''
                             else ''This indicates moderate changes requiring close monitoring.''))
                   | _ \<Rightarrow>
                       ''Time-Series Feature: Vitals trend over '' @ duration @ ''. '' @ spo2_text
                         @ ''. '' @ hr_text @ ''. ''
                         @ ''Partial vitals data available - complete assessment requires all measurements.'')))"

subsection \<open>\<^verbatim>\<open>build_patient_contents\<close>\<close>

text \<open>The first of the candidate keys whose value in the labs is truthy.\<close>

fun find_lactate :: "labs \<Rightarrow> string list \<Rightarrow> json option" where
  "find_lactate labs_json [] = None"
| "find_lactate labs_json (key # keys) =
     (case map_of labs_json key of
        Some v \<Rightarrow> if truthy v then Some v else find_lactate labs_json keys
      | None \<Rightarrow> find_lactate labs_json keys)"

definition lactate_keys :: "string list" where
  "lactate_keys = [''Lactate_level'', ''Lactate'', ''LAC'', ''Lactic_Acid'', ''lactate'', ''lac'']"

definition heart_rate_line :: "vital list \<Rightarrow> string" where
  "heart_rate_line vitals_list =
     (let hr_values = concat (map (\<lambda>v. case HeartRate v of None \<Rightarrow> [] | Some h \<Rightarrow> [h]) vitals_list) in
      if hr_values \<noteq> [] then
        ''   - heart_rate: '' @ str_of_int (py_int (sum_list hr_values / rat_of_nat (length hr_values)))
          @ '' (from vitals)''
      else ''   - heart_rate: Extract from patient notes or image analysis, or use 80 as default'')"

definition instruction_parts ::
  "env \<Rightarrow> labs option \<Rightarrow> vital list option \<Rightarrow> string option \<Rightarrow> string list" where
  \<open>instruction_parts ev labs_json vitals_list image_analysis_text =
     (let has_vitals = (case vitals_list of None \<Rightarrow> False | Some vs \<Rightarrow> length vs \<ge> 2);
          has_labs = (case labs_json of None \<Rightarrow> False
                      | Some l \<Rightarrow> \<exists>v \<in> set (map snd l). v \<noteq> JNull \<and> \<not> is_zero v \<and> truthy v);
          has_image_analysis = (case image_analysis_text of None \<Rightarrow> False
                                | Some t \<Rightarrow> t \<noteq> [] \<and> length (strip t) > 0)
      in
      if has_vitals \<or> has_labs \<or> has_image_analysis then
        [''CRITICAL TOOL CALLING REQUIREMENTS:'',
         ''1. You MUST call calculate_sepsis_risk. Extract parameters from available data:'']
        @ [if has_vitals then heart_rate_line (case vitals_list of None \<Rightarrow> [] | Some vs \<Rightarrow> vs)
           else ''   - heart_rate: Extract from patient notes or image analysis, or use 80 as default'']
        @ [''   - blood_pressure: Extract systolic from patient notes or image analysis (look for 'BP', 'blood pressure', numbers like '120/80') or use 120 as default'']
        @ [case (case labs_json of None \<Rightarrow> None
                 | Some l \<Rightarrow> if l = [] then None else find_lactate l lactate_keys) of
             Some lactate_value \<Rightarrow> ''   - lactate_level: '' @ e_str ev lactate_value @ '' (from labs)''
           | None \<Rightarrow> ''   - lactate_level: Extract from patient notes or image analysis, or use 1.0 as default'']
        @ [''   - respiratory_rate: Extract from patient notes or image analysis (look for 'RR', 'respiratory rate', 'breathing rate') or use 16 as default'']
        @ (if has_vitals then
             [''2. You MUST call generate_vitals_visualization. Convert the vitals list to JSON string:'',
              ''   - time_series_data: JSON string of ''
                @ str_of_int (int (length (case vitals_list of None \<Rightarrow> [] | Some vs \<Rightarrow> vs)))
                @ '' vitals measurements'',
              ''   - Example format: '[{"time":"00:00","SpO2":98,"HeartRate":72},...]'' @ [CHR 0x27]]
           else if has_image_analysis
                \<and> (\<exists>term \<in> set [''spo2'', ''heart rate'', ''hr'', ''vitals''].
                      py_in term (lower (case image_analysis_text of None \<Rightarrow> [] | Some t \<Rightarrow> t)))
           then
             [''2. You MUST call generate_vitals_visualization if you can extract vitals from the image analysis or patient notes.'',
              ''   - Convert vitals to JSON string format: '[{"time":"00:00","SpO2":98,"HeartRate":72},...]'' @ [CHR 0x27]]
           else [])
        @ [''3. After calling the tools, synthesize all data and provide your final JSON report.'',
           ''4. Include tool results in tool_verification_data field:'',
           ''   - sepsis_risk: {risk_score: <number>, score_category: 'High Risk' or 'Low Risk'}'',
           ''   - visualization_base64: <base64 string from generate_vitals_visualization>'']
      else
        [''You have limited data. If you can extract any vitals or lab values from patient notes or image analysis, call the appropriate tools.''])\<close>

text \<open>
  The parts are appended one after the other, as the source does; \<open>parts\<close> with a
  number is the list after that many steps.
\<close>

definition build_patient_contents ::
  "env \<Rightarrow> string \<Rightarrow> string option \<Rightarrow> string option \<Rightarrow> labs option \<Rightarrow> vital list option
     \<Rightarrow> string option \<Rightarrow> part list" where
  "build_patient_contents ev user_input_text uploaded_image_base64 uploaded_image_mime labs_json
       vitals_list image_analysis_text =
     (let parts0 = [];
          parts1 = (case (uploaded_image_base64, uploaded_image_mime) of
                      (Some b, Some m) \<Rightarrow>
                        if b \<noteq> [] \<and> m \<noteq> [] then parts0 @ [file_to_part b m] else parts0
                    | _ \<Rightarrow> parts0);
          parts2 = parts1 @ [text_part (''Patient Notes: '' @ user_input_text)];
          parts3 = (case image_analysis_text of
                      Some t \<Rightarrow>
                        if t \<noteq> [] then parts2 @ [text_part (''Image Analysis (from Gemini): '' @ t)]
                        else parts2
                    | None \<Rightarrow> parts2);
          parts4 = (if labs_json \<noteq> None \<and> labs_json \<noteq> Some []
                    then parts3 @ [text_part (preprocess_tabular_data ev labs_json)]
                    else parts3 @ [text_part ''Tabular Data Feature: No lab data available.'']);
          parts5 = (if vitals_list \<noteq> None \<and> vitals_list \<noteq> Some []
                    then parts4 @ [text_part (preprocess_timeseries_data ev vitals_list)]
                    else parts4 @ [text_part ''Time-Series Feature: No vitals data available.'']);
          instruction_text = join [newline] (instruction_parts ev labs_json vitals_list image_analysis_text)
      in parts5 @ [text_part instruction_text])"

section \<open>The agent loop (utils.py)\<close>

subsection \<open>Reading the text of a response\<close>

definition truthy_text :: "string option \<Rightarrow> bool" where
  "truthy_text t = (case t of None \<Rightarrow> False | Some s \<Rightarrow> s \<noteq> [])"

text \<open>
  \<^verbatim>\<open>_get_raw_json_text\<close>. The text attribute if it is truthy; else, with candidates,
  the text parts of the first candidate joined by newlines (iterating over parts that
  are \<^verbatim>\<open>None\<close> raises); if there is still no text, the text of the first part,
  whatever it is, and \<^verbatim>\<open>ValueError\<close> if there is no first part.
\<close>

definition joined_text :: "response \<Rightarrow> exn + string option" where
  "joined_text response =
     (if truthy_text (r_text response) then Inr (r_text response)
      else (case r_candidates response of
        Some (c # cs) \<Rightarrow>
          (case cand_content c of
             None \<Rightarrow> Inr (Some (join [newline] []))
           | Some mc \<Rightarrow>
               (case c_parts mc of
                  None \<Rightarrow> Inl (TypeError [CHR 0x27, CHR ''N'', CHR ''o'', CHR ''n'', CHR ''e'', CHR ''T'',
                      CHR ''y'', CHR ''p'', CHR ''e'', CHR 0x27, CHR '' '', CHR ''o'', CHR ''b'', CHR ''j'',
                      CHR ''e'', CHR ''c'', CHR ''t'', CHR '' '', CHR ''i'', CHR ''s'', CHR '' '', CHR ''n'',
                      CHR ''o'', CHR ''t'', CHR '' '', CHR ''i'', CHR ''t'', CHR ''e'', CHR ''r'', CHR ''a'',
                      CHR ''b'', CHR ''l'', CHR ''e''])
                | Some ps \<Rightarrow>
                    Inr (Some (join [newline]
                      (concat (map (\<lambda>p. case p_text p of None \<Rightarrow> []
                                          | Some t \<Rightarrow> if t \<noteq> [] then [t] else []) ps))))))
      | _ \<Rightarrow> Inr (r_text response)))"

definition first_part_text :: "response \<Rightarrow> exn + string option" where
  "first_part_text response =
     (case r_candidates response of
        Some (c # cs) \<Rightarrow>
          (case cand_content c of
             Some mc \<Rightarrow>
               (case c_parts mc of
                  Some (p # ps) \<Rightarrow> Inr (p_text p)
                | _ \<Rightarrow> Inl (ValueError ''No text content found in Gemini response.''))
           | None \<Rightarrow> Inl (ValueError ''No text content found in Gemini response.''))
      | _ \<Rightarrow> Inl (ValueError ''No text content found in Gemini response.''))"

definition get_raw_json_text :: "response \<Rightarrow> exn + string option" where
  "get_raw_json_text response =
     (case joined_text response of
        Inl e \<Rightarrow> Inl e
      | Inr text \<Rightarrow> if \<not> truthy_text text then first_part_text response else Inr text)"

subsection \<open>Markdown fences\<close>

text \<open>
  The fence is removed in two ways: in the first parse of a turn the text is stripped
  before and after the three removals; everywhere else it is stripped after each.
\<close>

definition fence :: string where
  "fence = [CHR 0x60, CHR 0x60, CHR 0x60]"

definition strip_fences_once :: "string \<Rightarrow> string" where
  "strip_fences_once raw_json_text =
     (let t0 = strip raw_json_text;
          t1 = (if startswith t0 (fence @ ''json'') then drop 7 t0 else t0);
          t2 = (if startswith t1 fence then drop 3 t1 else t1);
          t3 = (if endswith t2 fence then take (length t2 - 3) t2 else t2)
      in strip t3)"

definition strip_fences_each :: "string \<Rightarrow> string" where
  "strip_fences_each raw_json_text =
     (let t0 = strip raw_json_text;
          t1 = (if startswith t0 (fence @ ''json'') then strip (drop 7 t0) else t0);
          t2 = (if startswith t1 fence then strip (drop 3 t1) else t1)
      in if endswith t2 fence then strip (take (length t2 - 3) t2) else t2)"

subsection \<open>State and results\<close>

text \<open>
  The local variables of \<^verbatim>\<open>run_triage_agent\<close>. \<open>report_var\<close> is the variable
  \<^verbatim>\<open>report\<close>, \<open>None\<close> while it is unbound. Three fields are not in the source and only
  observe the run: the number of model calls made (the position in the client's script),
  the durations the run slept, and the number of turns started.
\<close>

record agent_state =
  tool_logs :: "string list"
  errors :: "string list"
  current_contents :: "item list"
  function_responses_added :: bool
  json_config_attempted :: bool
  last_response :: "response option"
  report_var :: "json option"
  api_calls :: nat
  sleeps :: "rat list"
  turns_started :: nat

text \<open>The returned tuple \<^verbatim>\<open>(report, raw_text, tool_logs, errors)\<close>.\<close>

type_synonym result4 = "json option \<times> string option \<times> string list \<times> string list"

datatype flow = Continue | Break | Return result4 | Raise exn

definition MAX_TURNS :: nat where
  "MAX_TURNS = 5"

definition MAX_RETRIES :: nat where
  "MAX_RETRIES = 5"

definition valid_report :: "json \<Rightarrow> bool" where
  "valid_report report =
     (case report of JObj d \<Rightarrow> has_key d (ustr ''triage_urgency'') | _ \<Rightarrow> False)"

definition turn_tag :: "nat \<Rightarrow> string" where
  "turn_tag turn_count = ''[Turn '' @ str_of_int (int turn_count) @ '']''"

subsection \<open>The retry loop around the model call\<close>

definition is_retryable :: "string \<Rightarrow> bool" where
  "is_retryable error_str \<longleftrightarrow>
     py_in ''429'' error_str \<or> py_in ''resource_exhausted'' error_str \<or> py_in ''quota'' error_str
     \<or> py_in ''500'' error_str \<or> py_in ''internal'' error_str \<or> py_in ''server'' error_str"

datatype retry_result = Got "response option" | Failed result4 | NoBreak

definition wait_time :: "env \<Rightarrow> nat \<Rightarrow> nat \<Rightarrow> rat" where
  "wait_time ev retry_attempt call_no = 2 ^ retry_attempt + frac (e_time ev call_no)"

fun retry_loop :: "env \<Rightarrow> (nat \<Rightarrow> api_outcome) \<Rightarrow> nat list \<Rightarrow> agent_state \<Rightarrow> retry_result \<times> agent_state" where
  "retry_loop ev client [] st = (NoBreak, st)"
| "retry_loop ev client (retry_attempt # rest) st =
     (let st1 = st\<lparr>api_calls := Suc (api_calls st)\<rparr> in
      case client (api_calls st) of
        Returns response \<Rightarrow> (Got response, st1\<lparr>last_response := response\<rparr>)
      | RaisesAPIError class_name msg \<Rightarrow>
          if is_retryable (lower msg) \<and> retry_attempt < MAX_RETRIES - 1 then
            retry_loop ev client rest
              (st1\<lparr>tool_logs := tool_logs st1 @
                     [''[ERROR] API Quota/Server Error. Retrying in ''
                        @ e_fmt2f ev (wait_time ev retry_attempt (api_calls st)) @ ''s...''],
                   sleeps := sleeps st1 @ [wait_time ev retry_attempt (api_calls st)]\<rparr>)
          else
            (let errors' = errors st1 @
                   [''Fatal API Error after '' @ str_of_int (int MAX_RETRIES) @ '' retries: ''
                      @ class_name @ '' - '' @ msg]
             in (Failed (None, Some (''Error: '' @ msg), tool_logs st1, errors'),
                 st1\<lparr>errors := errors'\<rparr>))
      | RaisesException msg \<Rightarrow>
          (let errors' = errors st1 @ [''Unexpected Error: '' @ msg]
           in (Failed (None, Some ''Error: Unexpected Runtime Issue.'', tool_logs st1, errors'),
               st1\<lparr>errors := errors'\<rparr>)))"

subsection \<open>Parsing a final response\<close>

text \<open>
  \<^verbatim>\<open>json.loads\<close>, and on \<^verbatim>\<open>JSONDecodeError\<close> the repair cascade and a second
  \<^verbatim>\<open>json.loads\<close>; the report is returned only if it is a \<^verbatim>\<open>dict\<close> with the key
  \<^verbatim>\<open>triage_urgency\<close>. The two log lines are those of the call site.
\<close>

definition accept_report ::
  "json \<Rightarrow> string \<Rightarrow> string \<Rightarrow> agent_state \<Rightarrow> result4 option \<times> agent_state" where
  "accept_report report text line st =
     (let st1 = st\<lparr>report_var := Some report\<rparr> in
      if valid_report report then
        (let st2 = st1\<lparr>tool_logs := tool_logs st1 @ [line]\<rparr>
         in (Some (Some report, Some text, tool_logs st2, errors st2), st2))
      else (None, st1))"

definition try_parse ::
  "string \<Rightarrow> string \<Rightarrow> string \<Rightarrow> agent_state \<Rightarrow> result4 option \<times> agent_state" where
  "try_parse json_text line_direct line_repaired st =
     (case json_loads json_text of
        Some report \<Rightarrow> accept_report report json_text line_direct st
      | None \<Rightarrow>
          (case repair_cascade json_text of
             None \<Rightarrow> (None, st)
           | Some repaired \<Rightarrow>
               if repaired = [] then (None, st)
               else (case json_loads repaired of
                       Some report \<Rightarrow> accept_report report repaired line_repaired st
                     | None \<Rightarrow> (None, st))))"

text \<open>\<^verbatim>\<open>s[start_idx:end_idx+1]\<close> between the first opening and the last closing brace.\<close>

definition brace_extract :: "string \<Rightarrow> string option" where
  "brace_extract s =
     (case (find s (CHR ''{''), rfind s (CHR ''}'')) of
        (Some start_idx, Some end_idx) \<Rightarrow>
          if end_idx > start_idx then Some (take (end_idx + 1 - start_idx) (drop start_idx s))
          else None
      | _ \<Rightarrow> None)"

text \<open>
  The last try of a turn that was not in JSON mode although JSON mode had been tried.
  Here the result of \<^verbatim>\<open>_repair_json\<close> overwrites \<^verbatim>\<open>json_extract\<close> before
  \<^verbatim>\<open>_repair_json_aggressive\<close> is called on it, so the aggressive repair gets \<^verbatim>\<open>None\<close>
  or the empty string and returns \<^verbatim>\<open>None\<close>. Every exception is swallowed.
\<close>

definition extract_from_text :: "string \<Rightarrow> string \<Rightarrow> agent_state \<Rightarrow> result4 option \<times> agent_state" where
  "extract_from_text json_text_clean line st =
     (case brace_extract json_text_clean of
        None \<Rightarrow> (None, st)
      | Some json_extract \<Rightarrow>
          (case json_loads json_extract of
             Some report \<Rightarrow> accept_report report json_extract line st
           | None \<Rightarrow>
               (case repair_json json_extract of
                  None \<Rightarrow> (None, st)
                | Some r \<Rightarrow>
                    (case (if r = [] then repair_json_aggressive r else Some r) of
                       None \<Rightarrow> (None, st)
                     | Some r' \<Rightarrow>
                         if r' = [] then (None, st)
                         else (case json_loads r' of
                                 Some report \<Rightarrow> accept_report report r' line st
                               | None \<Rightarrow> (None, st))))))"

subsection \<open>One turn\<close>

text \<open>The configuration of a turn: structured output after tool results, tools otherwise.\<close>

definition choose_config :: "nat \<Rightarrow> agent_state \<Rightarrow> config \<times> agent_state" where
  "choose_config turn_count st =
     (if function_responses_added st then
        (config_json_turn, st\<lparr>function_responses_added := False, json_config_attempted := True\<rparr>)
      else if json_config_attempted st \<and> turn_count \<ge> 2 then (config_json_turn, st)
      else (config_tool_turn, st))"

definition json_instruction :: part where
  \<open>json_instruction = text_part ''Please provide your final diagnostic report as a JSON object only (no markdown, no explanation) with this exact structure: {"differential_diagnosis": ["..."], "triage_urgency": "RED|YELLOW|GREEN", "confidence_score": 0.0-1.0, "evidence_summary": "...", "tool_verification_data": {...}}''\<close>

definition json_instruction_part :: part where
  \<open>json_instruction_part = text_part ''Now that you have the tool results, provide your final diagnostic report as a JSON object only (no markdown code blocks, no explanation text). The JSON must have this exact structure: {"differential_diagnosis": ["..."], "triage_urgency": "RED|YELLOW|GREEN", "confidence_score": 0.0-1.0, "evidence_summary": "...", "tool_verification_data": {...}}. Include the tool results in the tool_verification_data field.''\<close>

definition user_content :: "part list \<Rightarrow> content option" where
  "user_content ps = Some \<lparr>c_role = ''user'', c_parts = Some ps\<rparr>"

text \<open>The function calls among the parts of the model's content.\<close>

definition detect_function_calls :: "content option \<Rightarrow> function_call list" where
  "detect_function_calls model_content =
     (case model_content of
        None \<Rightarrow> []
      | Some mc \<Rightarrow>
          (case c_parts mc of
             None \<Rightarrow> []
           | Some ps \<Rightarrow> concat (map (\<lambda>p. case p_function_call p of None \<Rightarrow> [] | Some fc \<Rightarrow> [fc]) ps)))"

text \<open>A turn whose response requests tools: run them, extend the conversation, go on.\<close>

definition function_call_turn ::
  "env \<Rightarrow> nat \<Rightarrow> content option \<Rightarrow> function_call list \<Rightarrow> agent_state \<Rightarrow> flow \<times> agent_state" where
  "function_call_turn ev turn_count model_content function_calls st =
     (let logs1 = tool_logs st @
            [turn_tag turn_count @ '' Model requested '' @ str_of_int (int (length function_calls))
               @ '' function call(s).'']
      in case execute_calls ev function_calls logs1 of
           (function_response_parts, logs2) \<Rightarrow>
             (Continue,
              st\<lparr>tool_logs := logs2,
                 current_contents := current_contents st @
                   [ItemContent model_content, ItemContent (user_content function_response_parts),
                    ItemContent (user_content [json_instruction_part])],
                 function_responses_added := True\<rparr>))"

text \<open>A return with no report: the message goes to the error list first.\<close>

definition fail_with :: "string \<Rightarrow> string option \<Rightarrow> agent_state \<Rightarrow> flow \<times> agent_state" where
  "fail_with msg raw st =
     (let st1 = st\<lparr>errors := errors st @ [msg]\<rparr>
      in (Return (None, raw, tool_logs st1, errors st1), st1))"

text \<open>
  A turn whose response requests no tool. In the second parse the handler of
  \<^verbatim>\<open>JSONDecodeError\<close> would log an empty response when the cleaned text is empty; the
  guard before the parse makes the text non-empty there, so nothing is logged.
\<close>

definition final_response_turn ::
  "nat \<Rightarrow> config \<Rightarrow> response \<Rightarrow> content option \<Rightarrow> agent_state \<Rightarrow> flow \<times> agent_state" where
  "final_response_turn turn_count current_config response model_content st =
     (case (case get_raw_json_text response of
              Inr t \<Rightarrow> (t, st)
            | Inl e \<Rightarrow>
                (None, st\<lparr>tool_logs := tool_logs st @
                   [turn_tag turn_count @ '' Could not extract text from response: '' @ exn_str e]\<rparr>)) of
        (raw_json_text, st1) \<Rightarrow>
          (case (case raw_json_text of
                   Some raw \<Rightarrow>
                     if raw \<noteq> [] \<and> strip raw \<noteq> [] \<and> strip_fences_once raw \<noteq> [] then
                       try_parse (strip_fences_once raw)
                         (turn_tag turn_count @ '' Final response received and parsed as JSON.'')
                         (turn_tag turn_count @ '' Final response received and parsed as JSON (after repair).'')
                         st1
                     else (None, st1)
                 | None \<Rightarrow> (None, st1)) of
             (Some r, st2) \<Rightarrow> (Return r, st2)
           | (None, st2) \<Rightarrow>
               if current_config = config_json_turn then
                 fail_with ''Final response was not valid JSON despite structured output config.''
                   (if truthy_text raw_json_text then raw_json_text else Some ''No text content'') st2
               else
                 (case (model_content, raw_json_text) of
                    (Some mc, Some raw) \<Rightarrow>
                      if raw \<noteq> [] \<and> strip raw \<noteq> [] then
                        (let json_text_clean = strip_fences_each raw in
                         case (if json_text_clean \<noteq> []
                                  \<and> (startswith json_text_clean ''{''
                                       \<or> py_in ''triage_urgency'' json_text_clean)
                               then try_parse json_text_clean
                                      (turn_tag turn_count @ '' Final response received (parsed as JSON from text).'')
                                      (turn_tag turn_count @ '' Successfully parsed JSON after repair.'')
                                      st2
                               else (None, st2)) of
                           (Some r, st3) \<Rightarrow> (Return r, st3)
                         | (None, st3) \<Rightarrow>
                             if \<not> json_config_attempted st3 then
                               (Continue,
                                st3\<lparr>current_contents := current_contents st3 @
                                      [ItemContent model_content,
                                       ItemContent (user_content [json_instruction])],
                                    json_config_attempted := True\<rparr>)
                             else
                               (case extract_from_text json_text_clean
                                       (turn_tag turn_count @ '' Successfully extracted JSON from text response.'')
                                       st3 of
                                  (Some r, st4) \<Rightarrow> (Return r, st4)
                                | (None, st4) \<Rightarrow>
                                    fail_with ''Could not parse final response as valid JSON. Returning raw text.''
                                      raw_json_text st4))
                      else
                        fail_with (''Model returned empty or invalid content on turn ''
                                     @ str_of_int (int turn_count) @ ''.'') None st2
                  | _ \<Rightarrow>
                      fail_with (''Model returned empty or invalid content on turn ''
                                   @ str_of_int (int turn_count) @ ''.'') None st2)))"

text \<open>
  The body of the loop over the turns. \<^verbatim>\<open>response.candidates[0]\<close> is read outside
  every \<^verbatim>\<open>try\<close>: it raises when the candidates are \<^verbatim>\<open>None\<close> or empty.
\<close>

definition turn_body ::
  "env \<Rightarrow> (nat \<Rightarrow> api_outcome) \<Rightarrow> nat \<Rightarrow> agent_state \<Rightarrow> flow \<times> agent_state" where
  "turn_body ev client turn_count st =
     (case choose_config turn_count (st\<lparr>turns_started := Suc (turns_started st)\<rparr>) of
        (current_config, st1) \<Rightarrow>
          (case retry_loop ev client [0..<MAX_RETRIES] st1 of
             (Failed r, st2) \<Rightarrow> (Return r, st2)
           | (NoBreak, st2) \<Rightarrow> (Break, st2)
           | (Got None, st2) \<Rightarrow> (Break, st2)
           | (Got (Some response), st2) \<Rightarrow>
               (case r_candidates response of
                  None \<Rightarrow> (Raise (TypeError ([CHR 0x27] @ ''NoneType'' @ [CHR 0x27]
                                               @ '' object is not subscriptable'')), st2)
                | Some [] \<Rightarrow> (Raise (IndexError ''list index out of range''), st2)
                | Some (candidate # cs) \<Rightarrow>
                    (let model_content = cand_content candidate;
                         function_calls = detect_function_calls model_content
                     in if function_calls = []
                        then final_response_turn turn_count current_config response model_content st2
                        else function_call_turn ev turn_count model_content function_calls st2))))"

fun turn_loop ::
  "env \<Rightarrow> (nat \<Rightarrow> api_outcome) \<Rightarrow> nat list \<Rightarrow> agent_state \<Rightarrow> flow \<times> agent_state" where
  "turn_loop ev client [] st = (Continue, st)"
| "turn_loop ev client (turn_count # rest) st =
     (case turn_body ev client turn_count st of
        (Continue, st') \<Rightarrow> turn_loop ev client rest st'
      | (f, st') \<Rightarrow> (f, st'))"

subsection \<open>After the loop\<close>

definition max_turns_failure :: "agent_state \<Rightarrow> result4 \<times> agent_state" where
  "max_turns_failure st =
     (let st1 = st\<lparr>errors := errors st @
                   [''Maximum turns ('' @ str_of_int (int MAX_TURNS) @ '') reached without final response.''],
                 tool_logs := tool_logs st @
                   [''[ERROR] Loop completed '' @ str_of_int (int MAX_TURNS)
                      @ '' turns without valid JSON response.'']\<rparr>
      in ((None, None, tool_logs st1, errors st1), st1))"

text \<open>
  \<^verbatim>\<open>if report and isinstance(report, dict)\<close> on the variable \<^verbatim>\<open>report\<close>; reading it
  unbound raises, and the exception is swallowed like every other one of this block.
\<close>

definition final_check :: "json option \<Rightarrow> string \<Rightarrow> agent_state \<Rightarrow> result4 \<times> agent_state" where
  "final_check rv json_extract st =
     (case rv of
        None \<Rightarrow> max_turns_failure st
      | Some report \<Rightarrow>
          if truthy report \<and> is_dict report then
            (let st1 = st\<lparr>report_var := Some report,
                         tool_logs := tool_logs st @
                           [''[Final Attempt] Extracted JSON from last response after ''
                              @ str_of_int (int MAX_TURNS) @ '' turns.''],
                         errors := errors st @
                           [''Warning: Maximum turns reached, but extracted partial response.'']\<rparr>
             in ((Some report, Some json_extract, tool_logs st1, errors st1), st1))
          else max_turns_failure (st\<lparr>report_var := Some report\<rparr>))"

text \<open>
  The last attempt, on \<^verbatim>\<open>last_response\<close>. \<^verbatim>\<open>None.strip()\<close> raises when the response
  has no text. When the repaired text does not parse, \<^verbatim>\<open>report\<close> keeps the value it
  had.
\<close>

definition final_attempt :: "agent_state \<Rightarrow> result4 \<times> agent_state" where
  "final_attempt st =
     (case last_response st of
        None \<Rightarrow> max_turns_failure st
      | Some lr \<Rightarrow>
          (case get_raw_json_text lr of
             Inl e \<Rightarrow> max_turns_failure st
           | Inr None \<Rightarrow> max_turns_failure st
           | Inr (Some raw_json_text) \<Rightarrow>
               (case brace_extract (strip_fences_each raw_json_text) of
                  None \<Rightarrow> max_turns_failure st
                | Some json_extract \<Rightarrow>
                    (case json_loads json_extract of
                       Some report \<Rightarrow> final_check (Some report) json_extract st
                     | None \<Rightarrow>
                         (case repair_json json_extract of
                            None \<Rightarrow> final_check (Some JNull) json_extract st
                          | Some repaired \<Rightarrow>
                              if repaired = [] then final_check (Some JNull) json_extract st
                              else (case json_loads repaired of
                                      Some report \<Rightarrow> final_check (Some report) repaired st
                                    | None \<Rightarrow> final_check (report_var st) json_extract st))))))"

subsection \<open>\<^verbatim>\<open>run_triage_agent\<close>\<close>

definition initial_state :: "part list \<Rightarrow> agent_state" where
  "initial_state initial_contents =
     \<lparr>tool_logs = [], errors = [], current_contents = map ItemPart initial_contents,
      function_responses_added = False, json_config_attempted = False, last_response = None,
      report_var = None, api_calls = 0, sleeps = [], turns_started = 0\<rparr>"

text \<open>The run with its final state, and the run as the caller sees it.\<close>

definition run_triage_agent_state ::
  "env \<Rightarrow> string \<Rightarrow> string option \<Rightarrow> string option \<Rightarrow> labs option \<Rightarrow> vital list option
     \<Rightarrow> string option \<Rightarrow> (exn + result4) \<times> agent_state" where
  "run_triage_agent_state ev user_input_text uploaded_image_base64 uploaded_image_mime labs_json
       vitals_list image_analysis_text =
     (case e_client ev of
        None \<Rightarrow> (Inl (ValueError ''Gemini Client is not initialized.''), initial_state [])
      | Some client \<Rightarrow>
          (let initial_contents = build_patient_contents ev user_input_text uploaded_image_base64
                 uploaded_image_mime labs_json vitals_list image_analysis_text
           in case turn_loop ev client [0..<MAX_TURNS] (initial_state initial_contents) of
                (Return r, st) \<Rightarrow> (Inr r, st)
              | (Raise e, st) \<Rightarrow> (Inl e, st)
              | (f, st) \<Rightarrow> (case final_attempt st of (r, st') \<Rightarrow> (Inr r, st'))))"

definition run_triage_agent ::
  "env \<Rightarrow> string \<Rightarrow> string option \<Rightarrow> string option \<Rightarrow> labs option \<Rightarrow> vital list option
     \<Rightarrow> string option \<Rightarrow> exn + result4" where
  "run_triage_agent ev user_input_text uploaded_image_base64 uploaded_image_mime labs_json
       vitals_list image_analysis_text =
     fst (run_triage_agent_state ev user_input_text uploaded_image_base64 uploaded_image_mime
            labs_json vitals_list image_analysis_text)"

subsection \<open>Observing a run\<close>


definition same_calls :: "agent_state \<Rightarrow> agent_state \<Rightarrow> bool" where
  "same_calls st st' \<longleftrightarrow>
     api_calls st' = api_calls st \<and> turns_started st' = turns_started st
     \<and> last_response st' = last_response st \<and> sleeps st' = sleeps st"



section \<open>Sample data\<close>

text \<open>Concrete reports on which the merge theorems are instantiated.\<close>

definition sample_report :: report where
  "sample_report =
     [(ustr ''triage_urgency'', JStr (ustr ''RED'')),
      (ustr ''evidence_summary'', JStr (ustr ''fever'')),
      (tvd_key, JObj [(ustr ''sepsis_risk'', JInt 5), (ustr ''visualization_base64'', JStr (ustr ''iVBOR''))])]"

definition sample_fallback :: report where
  "sample_fallback =
     [(ustr ''triage_urgency'', JStr (ustr ''GREEN'')),
      (ustr ''differential_diagnosis'', JArr [JStr (ustr ''influenza'')]),
      (tvd_key, JObj [(ustr ''sepsis_risk'', JInt 7)])]"

definition sample_merged :: report where
  "sample_merged =
     [(ustr ''triage_urgency'', JStr (ustr ''GREEN'')),
      (ustr ''evidence_summary'', JStr (ustr ''fever'')),
      (tvd_key, JObj [(ustr ''sepsis_risk'', JInt 7), (ustr ''visualization_base64'', JStr (ustr ''iVBOR''))]),
      (ustr ''differential_diagnosis'', JArr [JStr (ustr ''influenza'')])]"

text \<open>
  A concrete environment: a script for the model client, and simple stand-ins for the
  library functions. \<open>show_json\<close> prints a value in JSON notation (integers, strings
  without escapes, lists and objects; anything else as \<^verbatim>\<open>?\<close>).
\<close>

definition text_of :: "ustring \<Rightarrow> string" where
  "text_of u = map char_of u"

fun show_json :: "json \<Rightarrow> string" where
  "show_json JNull = ''null''"
| "show_json (JBool b) = (if b then ''true'' else ''false'')"
| "show_json (JInt i) = str_of_int i"
| "show_json (JStr s) = [dq] @ text_of s @ [dq]"
| "show_json (JArr xs) = ''['' @ join '', '' (map show_json xs) @ '']''"
| "show_json (JObj d)
     = ''{'' @ join '', '' (map (\<lambda>(k, v). [dq] @ text_of k @ [dq] @ '': '' @ show_json v) d) @ ''}''"
| "show_json _ = ''?''"

definition sample_invoke :: "string \<Rightarrow> kwargs \<Rightarrow> string + json" where
  "sample_invoke name args =
     (if name = ''calculate_sepsis_risk'' then
        (case (map_of args (ustr ''heart_rate''), map_of args (ustr ''blood_pressure''),
               map_of args (ustr ''lactate_level''), map_of args (ustr ''respiratory_rate'')) of
           (Some (JInt hr), Some (JInt bp), Some (JFloat lac), Some (JInt rr)) \<Rightarrow>
             (let r = calculate_sepsis_risk hr bp lac rr in
              Inr (JObj [(ustr ''risk_score'', JInt (risk_score r)),
                         (ustr ''score_category'', JStr (ustr (score_category r)))]))
         | _ \<Rightarrow> Inl ''bad arguments'')
      else Inl ''time_series_data must contain at least one data point.'')"

definition sample_env :: "(nat \<Rightarrow> api_outcome) option \<Rightarrow> env" where
  "sample_env cl =
     \<lparr>e_client = cl,
      e_invoke = sample_invoke,
      e_str = show_json,
      e_dumps = show_json,
      e_fmt2f = (\<lambda>r. str_of_int \<lfloor>r\<rfloor> @ ''.00''),
      e_time = (\<lambda>n. 0),
      e_from_function_response = None,
      e_str_num = (\<lambda>r. str_of_int \<lfloor>r\<rfloor>),
      e_lab_analysis = (\<lambda>l. None)\<rparr>"

text \<open>Three requests of one turn: an unknown tool, a tool that raises, a tool that succeeds.\<close>

definition sample_calls :: "function_call list" where
  "sample_calls =
     [\<lparr>fc_name = ''plot_ecg'', fc_args = None\<rparr>,
      \<lparr>fc_name = ''generate_vitals_visualization'',
       fc_args = Some [(ustr ''time_series_data'', JStr (ustr ''[]''))]\<rparr>,
      \<lparr>fc_name = ''calculate_sepsis_risk'',
       fc_args = Some [(ustr ''heart_rate'', JInt 110), (ustr ''blood_pressure'', JInt 90),
                       (ustr ''lactate_level'', JFloat (24 / 5)), (ustr ''respiratory_rate'', JInt 26)]\<rparr>]"








text \<open>
  A model that answers the first call with a report, and scripts in which calls fail:
  a server error twice before the report, a quota error on every call, a bad request, and
  an exception that is no API error.
\<close>

definition json_stub :: response where
  \<open>json_stub =
     \<lparr>r_text = Some ''{"triage_urgency": "RED"}'',
      r_candidates = Some [\<lparr>cand_content = Some \<lparr>c_role = ''model'',
        c_parts = Some [text_part ''{"triage_urgency": "RED"}'']\<rparr>\<rparr>]\<rparr>\<close>


definition flaky_client :: "nat \<Rightarrow> api_outcome" where
  "flaky_client n =
     (if n < 2 then RaisesAPIError ''ServerError'' ''500 INTERNAL'' else Returns (Some json_stub))"

definition quota_client :: "nat \<Rightarrow> api_outcome" where
  "quota_client n = RaisesAPIError ''ClientError'' ''429 RESOURCE_EXHAUSTED''"

definition bad_request_client :: "nat \<Rightarrow> api_outcome" where
  "bad_request_client n = RaisesAPIError ''ClientError'' ''400 INVALID_ARGUMENT''"

definition broken_client :: "nat \<Rightarrow> api_outcome" where
  "broken_client n = RaisesException ''connection reset''"

section \<open>Facts for evaluating the sample data\<close>

lemma text_of_ustr: "text_of (ustr s) = s"
  by (simp add: text_of_def ustr_def comp_def)

lemma ustr_eq: "ustr a = ustr b \<longleftrightarrow> a = b"
proof
  assume "ustr a = ustr b"
  then have "text_of (ustr a) = text_of (ustr b)" by simp
  then show "a = b" by (simp add: text_of_ustr)
qed simp

lemma sample_sepsis_result:
  "calculate_sepsis_risk 110 90 (24 / 5) 26 = \<lparr>risk_score = 30, score_category = ''High Risk''\<rparr>"
  by code_simp

lemma str_of_int_30: "str_of_int 30 = ''30''"
  by code_simp


section \<open>Facts about the string helpers\<close>

lemma find_from_None: "find_from c s i = None \<longleftrightarrow> c \<notin> set s"
  by (induction s arbitrary: i) auto

lemma find_None: "find s c = None \<longleftrightarrow> c \<notin> set s"
  by (simp add: find_def find_from_None)

lemma rstrip_Nil: "rstrip s = [] \<longleftrightarrow> (\<forall>c \<in> set s. py_isspace c)"
proof -
  have "rstrip s = [] \<longleftrightarrow> dropWhile py_isspace (rev s) = []"
    by (simp add: rstrip_def)
  also have "\<dots> \<longleftrightarrow> (\<forall>c \<in> set (rev s). py_isspace c)"
    by (simp add: dropWhile_eq_Nil_conv)
  finally show ?thesis by simp
qed

lemma set_rstrip: "set (rstrip s) \<subseteq> set s"
proof -
  have "set (dropWhile py_isspace (rev s)) \<subseteq> set (rev s)"
    by (rule set_dropWhileD [THEN subsetI])
  then show ?thesis by (simp add: rstrip_def)
qed

lemma strip_Nil: "strip s = [] \<longleftrightarrow> (\<forall>c \<in> set s. py_isspace c)"
proof
  assume "strip s = []"
  then have "\<forall>c \<in> set (rstrip s). py_isspace c"
    by (simp add: strip_def lstrip_def dropWhile_eq_Nil_conv)
  moreover have "rstrip s \<noteq> [] \<Longrightarrow> \<not> py_isspace (last (rstrip s))"
  proof -
    assume ne: "rstrip s \<noteq> []"
    then have "dropWhile py_isspace (rev s) \<noteq> []" by (simp add: rstrip_def)
    then have "\<not> py_isspace (hd (dropWhile py_isspace (rev s)))"
      by (rule hd_dropWhile)
    then show ?thesis using ne by (simp add: rstrip_def last_rev)
  qed
  ultimately have "rstrip s = []"
    using last_in_set by blast
  then show "\<forall>c \<in> set s. py_isspace c" by (simp add: rstrip_Nil)
next
  assume "\<forall>c \<in> set s. py_isspace c"
  then have "rstrip s = []" by (simp add: rstrip_Nil)
  then show "strip s = []" by (simp add: strip_def lstrip_def)
qed

lemma startswith_append: "startswith (s @ t) s"
  by (simp add: startswith_def)

lemma startswith_py_in: "startswith s sub \<Longrightarrow> py_in sub s"
  by (cases s) (auto simp: startswith_def)

lemma py_in_prefix: "py_in sub (sub @ b)"
  by (rule startswith_py_in) (rule startswith_append)

lemma py_in_append: "py_in sub (a @ sub @ b)"
  by (induction a) (simp_all add: py_in_prefix)

section \<open>Facts about the repair functions\<close>

lemma repair_json_valid: "repair_json s = Some r \<Longrightarrow> json_loads r \<noteq> None"
  by (auto simp: repair_json_def Let_def split: if_splits option.splits prod.splits)

lemma repair_json_aggressive_valid: "repair_json_aggressive s = Some r \<Longrightarrow> json_loads r \<noteq> None"
  by (auto simp: repair_json_aggressive_def Let_def split: if_splits option.splits prod.splits)

lemma repair_json_handler_valid: "repair_json_handler s i = Some r \<Longrightarrow> json_loads r \<noteq> None"
  by (induction i) (auto simp: Let_def split: if_splits)

lemma repair_cascade_valid: "repair_cascade s = Some r \<Longrightarrow> json_loads r \<noteq> None"
  by (auto simp: repair_cascade_def split: option.splits if_splits
      dest: repair_json_valid repair_json_aggressive_valid)

lemma repair_json_blank: "\<forall>c \<in> set s. py_isspace c \<Longrightarrow> repair_json s = None"
  using strip_Nil [of s] by (simp add: repair_json_def)

lemma repair_json_aggressive_blank: "\<forall>c \<in> set s. py_isspace c \<Longrightarrow> repair_json_aggressive s = None"
  using strip_Nil [of s] by (simp add: repair_json_aggressive_def)

lemma repair_json_no_brace: "CHR ''{'' \<notin> set s \<Longrightarrow> repair_json s = None"
  using find_None [of s "CHR ''{''"] by (simp add: repair_json_def)

lemma repair_json_aggressive_no_brace: "CHR ''{'' \<notin> set s \<Longrightarrow> repair_json_aggressive s = None"
  using find_None [of s "CHR ''{''"] by (simp add: repair_json_aggressive_def)


section \<open>Invariants of the agent loop\<close>










lemma same_calls_trans: "same_calls a b \<Longrightarrow> same_calls b c \<Longrightarrow> same_calls a c"
  by (simp add: same_calls_def)





lemma retry_loop_counters:
  "retry_loop ev cl as st = (r, st') \<Longrightarrow>
     api_calls st \<le> api_calls st' \<and> api_calls st' \<le> api_calls st + length as
     \<and> turns_started st' = turns_started st"
proof (induction as arbitrary: st)
  case Nil
  then show ?case by simp
next
  case (Cons a as)
  show ?case
  proof (cases "cl (api_calls st)")
    case (Returns resp)
    with Cons.prems show ?thesis by (auto simp: Let_def)
  next
    case (RaisesAPIError c m)
    show ?thesis
    proof (cases "is_retryable (lower m) \<and> a < MAX_RETRIES - 1")
      case True
      with Cons.prems RaisesAPIError
      have "retry_loop ev cl as
              (st\<lparr>api_calls := Suc (api_calls st),
                  tool_logs := tool_logs st @
                     [''[ERROR] API Quota/Server Error. Retrying in ''
                        @ e_fmt2f ev (wait_time ev a (api_calls st)) @ ''s...''],
                  sleeps := sleeps st @ [wait_time ev a (api_calls st)]\<rparr>) = (r, st')"
        by (simp add: Let_def)
      from Cons.IH [OF this] show ?thesis by simp
    next
      case False
      with Cons.prems RaisesAPIError show ?thesis by (auto simp: Let_def)
    qed
  next
    case (RaisesException m)
    with Cons.prems show ?thesis by (auto simp: Let_def)
  qed
qed


lemma retry_loop_failed_ok:
  "retry_loop ev cl as st = (Failed r, st') \<Longrightarrow>
     \<exists>raw logs errs. r = (None, raw, logs, errs) \<and> errs \<noteq> []"
proof (induction as arbitrary: st)
  case Nil
  then show ?case by simp
next
  case (Cons a as)
  show ?case
  proof (cases "cl (api_calls st)")
    case (Returns resp)
    with Cons.prems show ?thesis by (auto simp: Let_def)
  next
    case (RaisesAPIError c m)
    show ?thesis
    proof (cases "is_retryable (lower m) \<and> a < MAX_RETRIES - 1")
      case True
      with Cons.prems RaisesAPIError
      have "retry_loop ev cl as
              (st\<lparr>api_calls := Suc (api_calls st),
                  tool_logs := tool_logs st @
                     [''[ERROR] API Quota/Server Error. Retrying in ''
                        @ e_fmt2f ev (wait_time ev a (api_calls st)) @ ''s...''],
                  sleeps := sleeps st @ [wait_time ev a (api_calls st)]\<rparr>) = (Failed r, st')"
        by (simp add: Let_def)
      from Cons.IH [OF this] show ?thesis .
    next
      case False
      with Cons.prems RaisesAPIError show ?thesis by (auto simp: Let_def)
    qed
  next
    case (RaisesException m)
    with Cons.prems show ?thesis by (auto simp: Let_def)
  qed
qed





lemma str_of_int_5: "str_of_int 5 = ''5''"
  by code_simp

lemma range_5: "[0..<5] = [0, 1, 2, 3, 4]"
  by (simp add: upt_rec)














lemma run_state_cases:
  assumes "e_client ev = Some client"
    and "turn_loop ev client [0..<MAX_TURNS]
           (initial_state (build_patient_contents ev notes img mime labs_json vitals_list ana)) = (fl, st)"
  shows "run_triage_agent_state ev notes img mime labs_json vitals_list ana
     = (case fl of
          Return r \<Rightarrow> (Inr r, st)
        | Raise e \<Rightarrow> (Inl e, st)
        | _ \<Rightarrow> (Inr (fst (final_attempt st)), snd (final_attempt st)))"
  using assms
  by (cases fl) (simp_all add: run_triage_agent_state_def split: prod.splits)






lemma wait_time_bounds:
  "2 ^ a \<le> wait_time ev a k \<and> wait_time ev a k < 2 ^ a + 1"
  using frac_ge_0 [of "e_time ev k"] frac_lt_1 [of "e_time ev k"]
  by (simp add: wait_time_def)

lemma retry_loop_failed_turn:
  assumes "retry_loop ev client [0..<MAX_RETRIES]
             (snd (choose_config t (st\<lparr>turns_started := Suc (turns_started st)\<rparr>))) = (Failed r, st')"
  shows "turn_body ev client t st = (Return r, st')
     \<and> turn_loop ev client (t # ts) st = (Return r, st')
     \<and> (\<exists>raw logs errs. r = (None, raw, logs, errs) \<and> errs \<noteq> [])"
proof -
  obtain cfg st1 where c: "choose_config t (st\<lparr>turns_started := Suc (turns_started st)\<rparr>) = (cfg, st1)"
    by (cases "choose_config t (st\<lparr>turns_started := Suc (turns_started st)\<rparr>)")
  have b: "turn_body ev client t st = (Return r, st')"
    using assms c by (simp add: turn_body_def)
  then have "turn_loop ev client (t # ts) st = (Return r, st')" by simp
  with b retry_loop_failed_ok [OF assms] show ?thesis by blast
qed

section \<open>Tool execution\<close>

lemma execute_function_call_fst:
  "fst (execute_function_call ev n a logs) = fst (execute_function_call ev n a [])"
  by (simp add: execute_function_call_def Let_def split: sum.splits option.splits)

lemma execute_function_call_snd:
  "snd (execute_function_call ev n a logs) = logs @ snd (execute_function_call ev n a [])"
  by (simp add: execute_function_call_def Let_def split: sum.splits option.splits)

lemma execute_function_call_one_line:
  "length (snd (execute_function_call ev n a [])) = 1"
  by (simp add: execute_function_call_def Let_def split: sum.splits option.splits)

lemma execute_calls_fst:
  "fst (execute_calls ev calls logs)
   = map (\<lambda>call. fst (execute_function_call ev (fc_name call) (call_args call) [])) calls"
proof (induction calls arbitrary: logs)
  case Nil
  then show ?case by simp
next
  case (Cons call calls)
  let ?l1 = "logs @ [action_line ev (fc_name call) (call_args call)]"
  obtain p l2 where e: "execute_function_call ev (fc_name call) (call_args call) ?l1 = (p, l2)"
    by (cases "execute_function_call ev (fc_name call) (call_args call) ?l1")
  have p: "p = fst (execute_function_call ev (fc_name call) (call_args call) [])"
    using execute_function_call_fst [of ev "fc_name call" "call_args call" ?l1] e by simp
  obtain ps l3 where r: "execute_calls ev calls l2 = (ps, l3)"
    by (cases "execute_calls ev calls l2")
  have ps: "ps = map (\<lambda>call. fst (execute_function_call ev (fc_name call) (call_args call) [])) calls"
    using Cons.IH [of l2] r by simp
  show ?case
    using e r p ps by (simp add: Let_def)
qed

lemma execute_calls_snd:
  "snd (execute_calls ev calls logs)
   = logs @ concat (map (\<lambda>call.
        action_line ev (fc_name call) (call_args call)
        # snd (execute_function_call ev (fc_name call) (call_args call) [])) calls)"
proof (induction calls arbitrary: logs)
  case Nil
  then show ?case by simp
next
  case (Cons call calls)
  let ?l1 = "logs @ [action_line ev (fc_name call) (call_args call)]"
  obtain p l2 where e: "execute_function_call ev (fc_name call) (call_args call) ?l1 = (p, l2)"
    by (cases "execute_function_call ev (fc_name call) (call_args call) ?l1")
  have l2: "l2 = ?l1 @ snd (execute_function_call ev (fc_name call) (call_args call) [])"
    using execute_function_call_snd [of ev "fc_name call" "call_args call" ?l1] e by simp
  obtain ps l3 where r: "execute_calls ev calls l2 = (ps, l3)"
    by (cases "execute_calls ev calls l2")
  have l3: "l3 = l2 @ concat (map (\<lambda>call.
        action_line ev (fc_name call) (call_args call)
        # snd (execute_function_call ev (fc_name call) (call_args call) [])) calls)"
    using Cons.IH [of l2] r by simp
  show ?case
    using e r l2 l3 by (simp add: Let_def)
qed

text \<open>
  C5: \<^verbatim>\<open>execute_function_call\<close> always returns a part. For a name that is not a
  registered tool the part is the error payload, whose message names the function, and
  the log gets an \<^verbatim>\<open>[ERROR]\<close> line; for a registered tool that raises, the payload and
  the \<^verbatim>\<open>[ERROR]\<close> line carry the cause. In a turn with several requests the part at
  each position is the result of executing the request at that position by itself,
  whatever the other requests did, and the log holds for each request, in request order,
  its action line and its one result line.
\<close>

theorem execute_function_call_never_raises:
  "(func_name \<notin> set TOOL_CONFIG \<longrightarrow>
      execute_function_call ev func_name func_args logs
        = (error_part ev (''Function '' @ func_name @ '' not found in TOOL_CONFIG''),
           logs @ [''[ERROR] '' @ ''Function '' @ func_name @ '' not found in TOOL_CONFIG''])
      \<and> py_in func_name (''Function '' @ func_name @ '' not found in TOOL_CONFIG''))
   \<and> (\<forall>cause. func_name \<in> set TOOL_CONFIG \<longrightarrow> e_invoke ev func_name func_args = Inl cause \<longrightarrow>
      execute_function_call ev func_name func_args logs
        = (error_part ev (''Execution of '' @ func_name @ '' failed: '' @ cause),
           logs @ [''[ERROR] '' @ ''Execution of '' @ func_name @ '' failed: '' @ cause])
      \<and> py_in cause (''Execution of '' @ func_name @ '' failed: '' @ cause))
   \<and> (\<exists>line. snd (execute_function_call ev func_name func_args logs) = logs @ [line])
   \<and> fst (execute_calls ev calls logs)
       = map (\<lambda>call. fst (execute_function_call ev (fc_name call) (call_args call) [])) calls
   \<and> snd (execute_calls ev calls logs)
       = logs @ concat (map (\<lambda>call.
           action_line ev (fc_name call) (call_args call)
           # snd (execute_function_call ev (fc_name call) (call_args call) [])) calls)"
proof -
  have a: "func_name \<notin> set TOOL_CONFIG \<longrightarrow>
      execute_function_call ev func_name func_args logs
        = (error_part ev (''Function '' @ func_name @ '' not found in TOOL_CONFIG''),
           logs @ [''[ERROR] '' @ ''Function '' @ func_name @ '' not found in TOOL_CONFIG''])
      \<and> py_in func_name (''Function '' @ func_name @ '' not found in TOOL_CONFIG'')"
    using py_in_append [of func_name "''Function ''" "'' not found in TOOL_CONFIG''"]
    by (simp add: execute_function_call_def Let_def)
  have b: "\<forall>cause. func_name \<in> set TOOL_CONFIG \<longrightarrow> e_invoke ev func_name func_args = Inl cause \<longrightarrow>
      execute_function_call ev func_name func_args logs
        = (error_part ev (''Execution of '' @ func_name @ '' failed: '' @ cause),
           logs @ [''[ERROR] '' @ ''Execution of '' @ func_name @ '' failed: '' @ cause])
      \<and> py_in cause (''Execution of '' @ func_name @ '' failed: '' @ cause)"
  proof (intro allI impI)
    fix cause
    assume r: "func_name \<in> set TOOL_CONFIG" and i: "e_invoke ev func_name func_args = Inl cause"
    have "py_in cause ((''Execution of '' @ func_name @ '' failed: '') @ cause @ [])"
      by (rule py_in_append)
    then have "py_in cause (''Execution of '' @ func_name @ '' failed: '' @ cause)"
      by simp
    moreover have "execute_function_call ev func_name func_args logs
        = (error_part ev (''Execution of '' @ func_name @ '' failed: '' @ cause),
           logs @ [''[ERROR] '' @ ''Execution of '' @ func_name @ '' failed: '' @ cause])"
      using r i by (simp add: execute_function_call_def Let_def)
    ultimately show "execute_function_call ev func_name func_args logs
        = (error_part ev (''Execution of '' @ func_name @ '' failed: '' @ cause),
           logs @ [''[ERROR] '' @ ''Execution of '' @ func_name @ '' failed: '' @ cause])
      \<and> py_in cause (''Execution of '' @ func_name @ '' failed: '' @ cause)"
      by simp
  qed
  have c: "\<exists>line. snd (execute_function_call ev func_name func_args logs) = logs @ [line]"
  proof -
    obtain line where "snd (execute_function_call ev func_name func_args []) = [line]"
      using execute_function_call_one_line [of ev func_name func_args]
      by (cases "snd (execute_function_call ev func_name func_args [])") auto
    then show ?thesis
      using execute_function_call_snd [of ev func_name func_args logs] by simp
  qed
  show ?thesis
    using a b c execute_calls_fst [of ev calls logs] execute_calls_snd [of ev calls logs]
    by blast
qed

theorem execute_function_call_never_raises_witness:
  \<open>execute_function_call (sample_env None) ''plot_ecg'' [] []
     = (text_part ''{"error": "Function plot_ecg not found in TOOL_CONFIG"}'',
        [''[ERROR] Function plot_ecg not found in TOOL_CONFIG''])
   \<and> execute_function_call (sample_env None) ''generate_vitals_visualization''
        [(ustr ''time_series_data'', JStr (ustr ''[]''))] []
     = (text_part ''{"error": "Execution of generate_vitals_visualization failed: time_series_data must contain at least one data point."}'',
        [''[ERROR] Execution of generate_vitals_visualization failed: time_series_data must contain at least one data point.''])
   \<and> fst (execute_calls (sample_env None) sample_calls [])
     = [text_part ''{"error": "Function plot_ecg not found in TOOL_CONFIG"}'',
        text_part ''{"error": "Execution of generate_vitals_visualization failed: time_series_data must contain at least one data point."}'',
        text_part ''{"function": "calculate_sepsis_risk", "result": {"risk_score": 30, "score_category": "High Risk"}}'']
   \<and> length (snd (execute_calls (sample_env None) sample_calls [])) = 6\<close>
proof -
  let ?ev = "sample_env None"
  let ?a = "[(ustr ''time_series_data'', JStr (ustr ''[]''))]"
  note T1 = execute_function_call_never_raises [of "''plot_ecg''" ?ev "[]" "[]" sample_calls]
  note T2 = execute_function_call_never_raises [of "''generate_vitals_visualization''" ?ev ?a "[]" "[]"]
  have n1: "''plot_ecg'' \<notin> set TOOL_CONFIG" by (simp add: TOOL_CONFIG_def)
  have n2: "''generate_vitals_visualization'' \<in> set TOOL_CONFIG" by (simp add: TOOL_CONFIG_def)
  have i2: "e_invoke ?ev ''generate_vitals_visualization'' ?a
      = Inl ''time_series_data must contain at least one data point.''"
    by (simp add: sample_env_def sample_invoke_def)
  have p1: \<open>error_part ?ev (''Function '' @ ''plot_ecg'' @ '' not found in TOOL_CONFIG'')
      = text_part ''{"error": "Function plot_ecg not found in TOOL_CONFIG"}''\<close>
    by (simp add: error_part_def sample_env_def text_of_ustr dq_def)
  have p2: \<open>error_part ?ev (''Execution of '' @ ''generate_vitals_visualization'' @ '' failed: ''
        @ ''time_series_data must contain at least one data point.'')
      = text_part ''{"error": "Execution of generate_vitals_visualization failed: time_series_data must contain at least one data point."}''\<close>
    by (simp add: error_part_def sample_env_def text_of_ustr dq_def)
  have w1: \<open>execute_function_call ?ev ''plot_ecg'' [] []
     = (text_part ''{"error": "Function plot_ecg not found in TOOL_CONFIG"}'',
        [''[ERROR] Function plot_ecg not found in TOOL_CONFIG''])\<close>
    using T1 n1 p1 by simp
  have w2: \<open>execute_function_call ?ev ''generate_vitals_visualization'' ?a []
     = (text_part ''{"error": "Execution of generate_vitals_visualization failed: time_series_data must contain at least one data point."}'',
        [''[ERROR] Execution of generate_vitals_visualization failed: time_series_data must contain at least one data point.''])\<close>
    using T2 n2 i2 p2 by simp
  have m: \<open>map (\<lambda>call. fst (execute_function_call ?ev (fc_name call) (call_args call) [])) sample_calls
     = [text_part ''{"error": "Function plot_ecg not found in TOOL_CONFIG"}'',
        text_part ''{"error": "Execution of generate_vitals_visualization failed: time_series_data must contain at least one data point."}'',
        text_part ''{"function": "calculate_sepsis_risk", "result": {"risk_score": 30, "score_category": "High Risk"}}'']\<close>
    by (simp add: sample_calls_def execute_function_call_def TOOL_CONFIG_def sample_env_def
        sample_invoke_def call_args_def error_part_def text_of_ustr ustr_eq sample_sepsis_result
        dq_def str_of_int_30)
  have w3: \<open>fst (execute_calls ?ev sample_calls [])
     = [text_part ''{"error": "Function plot_ecg not found in TOOL_CONFIG"}'',
        text_part ''{"error": "Execution of generate_vitals_visualization failed: time_series_data must contain at least one data point."}'',
        text_part ''{"function": "calculate_sepsis_risk", "result": {"risk_score": 30, "score_category": "High Risk"}}'']\<close>
    using T1 m by simp
  have l: "length (concat (map (\<lambda>call.
           action_line ?ev (fc_name call) (call_args call)
           # snd (execute_function_call ?ev (fc_name call) (call_args call) [])) sample_calls)) = 6"
    by (simp add: sample_calls_def execute_function_call_one_line)
  have w4: "length (snd (execute_calls ?ev sample_calls [])) = 6"
    using T1 l by simp
  from w1 w2 w3 w4 show ?thesis by blast
qed

section \<open>Turns that execute tool calls\<close>



section \<open>Runs of the sample stubs\<close>



















lemma sample_retryable:
  "is_retryable (lower ''500 INTERNAL'')"
  "is_retryable (lower ''429 RESOURCE_EXHAUSTED'')"
  "\<not> is_retryable (lower ''400 INVALID_ARGUMENT'')"
  by code_simp+

lemma sample_numbers:
  "str_of_int 1 = ''1''" "str_of_int 2 = ''2''" "str_of_int 4 = ''4''" "str_of_int 8 = ''8''"
  by code_simp+

lemma sample_wait: "wait_time (sample_env cl) a k = 2 ^ a"
  by (simp add: wait_time_def sample_env_def)

lemma sample_fmt: "e_fmt2f (sample_env cl) (2 ^ a) = str_of_int (2 ^ a) @ ''.00''"
proof -
  have "\<lfloor>(2 :: rat) ^ a\<rfloor> = 2 ^ a"
    by (metis floor_of_int of_int_numeral of_int_power)
  then show ?thesis by (simp add: sample_env_def)
qed

lemma flaky_tail:
  "retry_loop (sample_env cl) flaky_client [1, 2, 3, 4]
     (initial_state []\<lparr>api_calls := 1,
        tool_logs := [''[ERROR] API Quota/Server Error. Retrying in 1.00s...''],
        sleeps := [1]\<rparr>)
   = (Got (Some json_stub),
      initial_state []\<lparr>api_calls := 3,
        tool_logs := [''[ERROR] API Quota/Server Error. Retrying in 1.00s...'',
                      ''[ERROR] API Quota/Server Error. Retrying in 2.00s...''],
        sleeps := [1, 2], last_response := Some json_stub\<rparr>)"
  using sample_fmt [of cl 1]
  by (simp add: flaky_client_def sample_retryable sample_wait sample_numbers
      Let_def MAX_RETRIES_def initial_state_def)

lemma quota_run:
  "retry_loop (sample_env cl) quota_client [0, 1, 2, 3, 4] (initial_state [])
   = (Failed (None, Some ''Error: 429 RESOURCE_EXHAUSTED'',
        [''[ERROR] API Quota/Server Error. Retrying in 1.00s...'',
         ''[ERROR] API Quota/Server Error. Retrying in 2.00s...'',
         ''[ERROR] API Quota/Server Error. Retrying in 4.00s...'',
         ''[ERROR] API Quota/Server Error. Retrying in 8.00s...''],
        [''Fatal API Error after 5 retries: ClientError - 429 RESOURCE_EXHAUSTED'']),
      initial_state []\<lparr>api_calls := 5,
        tool_logs := [''[ERROR] API Quota/Server Error. Retrying in 1.00s...'',
         ''[ERROR] API Quota/Server Error. Retrying in 2.00s...'',
         ''[ERROR] API Quota/Server Error. Retrying in 4.00s...'',
         ''[ERROR] API Quota/Server Error. Retrying in 8.00s...''],
        sleeps := [1, 2, 4, 8],
        errors := [''Fatal API Error after 5 retries: ClientError - 429 RESOURCE_EXHAUSTED'']\<rparr>)"
  using sample_fmt [of cl 0] sample_fmt [of cl 1] sample_fmt [of cl 2] sample_fmt [of cl 3]
  by (simp add: quota_client_def sample_retryable sample_wait sample_numbers str_of_int_5
      Let_def MAX_RETRIES_def initial_state_def)

section \<open>The first message\<close>





section \<open>The turn budget\<close>



section \<open>Failures as data\<close>




section \<open>The shape of a returned report\<close>




section \<open>Retrying the model call\<close>

text \<open>
  C4: an API error is transient when its lower-cased text contains one of the six
  markers. On a transient error in one of the first four attempts the loop logs, sleeps
  two to the power of the attempt plus a jitter below one second, and calls again; on
  any other API error, on a transient error in the fifth attempt, and on any other
  exception it stops with no report and the error appended to the error list. A turn
  makes at most five calls, and a failed call ends the turn, the loop and the run with
  that result.
\<close>

theorem retry_loop_policy:
  "(is_retryable error_str \<longleftrightarrow>
      py_in ''429'' error_str \<or> py_in ''resource_exhausted'' error_str \<or> py_in ''quota'' error_str
      \<or> py_in ''500'' error_str \<or> py_in ''internal'' error_str \<or> py_in ''server'' error_str)
   \<and> (\<forall>class_name msg.
        client (api_calls st) = RaisesAPIError class_name msg \<longrightarrow>
        is_retryable (lower msg) \<longrightarrow> retry_attempt < 4 \<longrightarrow>
          retry_loop ev client (retry_attempt # rest) st
            = retry_loop ev client rest
                (st\<lparr>api_calls := Suc (api_calls st),
                    tool_logs := tool_logs st @
                      [''[ERROR] API Quota/Server Error. Retrying in ''
                         @ e_fmt2f ev (wait_time ev retry_attempt (api_calls st)) @ ''s...''],
                    sleeps := sleeps st @ [wait_time ev retry_attempt (api_calls st)]\<rparr>)
          \<and> 2 ^ retry_attempt \<le> wait_time ev retry_attempt (api_calls st)
          \<and> wait_time ev retry_attempt (api_calls st) < 2 ^ retry_attempt + 1)
   \<and> (\<forall>class_name msg.
        client (api_calls st) = RaisesAPIError class_name msg \<longrightarrow>
        \<not> is_retryable (lower msg) \<or> 4 \<le> retry_attempt \<longrightarrow>
          fst (retry_loop ev client (retry_attempt # rest) st)
            = Failed (None, Some (''Error: '' @ msg), tool_logs st,
                      errors st @ [''Fatal API Error after 5 retries: '' @ class_name @ '' - '' @ msg]))
   \<and> (\<forall>msg.
        client (api_calls st) = RaisesException msg \<longrightarrow>
          fst (retry_loop ev client (retry_attempt # rest) st)
            = Failed (None, Some ''Error: Unexpected Runtime Issue.'', tool_logs st,
                      errors st @ [''Unexpected Error: '' @ msg]))
   \<and> api_calls (snd (retry_loop ev client [0..<MAX_RETRIES] st)) \<le> api_calls st + 5
   \<and> (\<forall>r st'.
        retry_loop ev client [0..<MAX_RETRIES]
          (snd (choose_config turn_count (st\<lparr>turns_started := Suc (turns_started st)\<rparr>))) = (Failed r, st')
        \<longrightarrow> turn_body ev client turn_count st = (Return r, st')
            \<and> turn_loop ev client (turn_count # turns) st = (Return r, st')
            \<and> (\<exists>raw logs errs. r = (None, raw, logs, errs) \<and> errs \<noteq> []))"
proof -
  have a: "is_retryable error_str \<longleftrightarrow>
      py_in ''429'' error_str \<or> py_in ''resource_exhausted'' error_str \<or> py_in ''quota'' error_str
      \<or> py_in ''500'' error_str \<or> py_in ''internal'' error_str \<or> py_in ''server'' error_str"
    by (simp add: is_retryable_def)
  have b: "\<forall>class_name msg.
        client (api_calls st) = RaisesAPIError class_name msg \<longrightarrow>
        is_retryable (lower msg) \<longrightarrow> retry_attempt < 4 \<longrightarrow>
          retry_loop ev client (retry_attempt # rest) st
            = retry_loop ev client rest
                (st\<lparr>api_calls := Suc (api_calls st),
                    tool_logs := tool_logs st @
                      [''[ERROR] API Quota/Server Error. Retrying in ''
                         @ e_fmt2f ev (wait_time ev retry_attempt (api_calls st)) @ ''s...''],
                    sleeps := sleeps st @ [wait_time ev retry_attempt (api_calls st)]\<rparr>)
          \<and> 2 ^ retry_attempt \<le> wait_time ev retry_attempt (api_calls st)
          \<and> wait_time ev retry_attempt (api_calls st) < 2 ^ retry_attempt + 1"
    using wait_time_bounds [of retry_attempt ev "api_calls st"]
    by (simp add: Let_def MAX_RETRIES_def)
  have c: "\<forall>class_name msg.
        client (api_calls st) = RaisesAPIError class_name msg \<longrightarrow>
        \<not> is_retryable (lower msg) \<or> 4 \<le> retry_attempt \<longrightarrow>
          fst (retry_loop ev client (retry_attempt # rest) st)
            = Failed (None, Some (''Error: '' @ msg), tool_logs st,
                      errors st @ [''Fatal API Error after 5 retries: '' @ class_name @ '' - '' @ msg])"
    by (auto simp: Let_def MAX_RETRIES_def str_of_int_5)
  have d: "\<forall>msg.
        client (api_calls st) = RaisesException msg \<longrightarrow>
          fst (retry_loop ev client (retry_attempt # rest) st)
            = Failed (None, Some ''Error: Unexpected Runtime Issue.'', tool_logs st,
                      errors st @ [''Unexpected Error: '' @ msg])"
    by (simp add: Let_def)
  have e: "api_calls (snd (retry_loop ev client [0..<MAX_RETRIES] st)) \<le> api_calls st + 5"
    using retry_loop_counters [of ev client "[0..<MAX_RETRIES]" st]
    by (cases "retry_loop ev client [0..<MAX_RETRIES] st") (simp add: MAX_RETRIES_def)
  have f: "\<forall>r st'.
        retry_loop ev client [0..<MAX_RETRIES]
          (snd (choose_config turn_count (st\<lparr>turns_started := Suc (turns_started st)\<rparr>))) = (Failed r, st')
        \<longrightarrow> turn_body ev client turn_count st = (Return r, st')
            \<and> turn_loop ev client (turn_count # turns) st = (Return r, st')
            \<and> (\<exists>raw logs errs. r = (None, raw, logs, errs) \<and> errs \<noteq> [])"
    using retry_loop_failed_turn by blast
  from a b c d e f show ?thesis by blast
qed


theorem retry_loop_policy_witness:
  "fst (retry_loop (sample_env None) flaky_client [0..<5] (initial_state [])) = Got (Some json_stub)
   \<and> sleeps (snd (retry_loop (sample_env None) flaky_client [0..<5] (initial_state []))) = [1, 2]
   \<and> api_calls (snd (retry_loop (sample_env None) flaky_client [0..<5] (initial_state []))) = 3
   \<and> fst (retry_loop (sample_env None) bad_request_client [0..<5] (initial_state []))
       = Failed (None, Some ''Error: 400 INVALID_ARGUMENT'', [],
           [''Fatal API Error after 5 retries: ClientError - 400 INVALID_ARGUMENT''])
   \<and> fst (retry_loop (sample_env None) quota_client [4] (initial_state []))
       = Failed (None, Some ''Error: 429 RESOURCE_EXHAUSTED'', [],
           [''Fatal API Error after 5 retries: ClientError - 429 RESOURCE_EXHAUSTED''])
   \<and> sleeps (snd (retry_loop (sample_env None) quota_client [0..<5] (initial_state []))) = [1, 2, 4, 8]
   \<and> fst (retry_loop (sample_env None) broken_client [0..<5] (initial_state []))
       = Failed (None, Some ''Error: Unexpected Runtime Issue.'', [],
           [''Unexpected Error: connection reset''])
   \<and> run_triage_agent (sample_env (Some bad_request_client)) ''cough'' None None None None None
       = Inr (None, Some ''Error: 400 INVALID_ARGUMENT'', [],
           [''Fatal API Error after 5 retries: ClientError - 400 INVALID_ARGUMENT''])"
proof -
  let ?ev = "sample_env None"
  let ?st0 = "initial_state []"
  note Tf = retry_loop_policy [where client = flaky_client and st = ?st0 and retry_attempt = 0
      and rest = "[1, 2, 3, 4]" and ev = ?ev
      and error_str = "''quota''" and turn_count = 0 and turns = "[]"]
  note Tb = retry_loop_policy [where client = bad_request_client and st = ?st0 and retry_attempt = 0
      and rest = "[1, 2, 3, 4]" and ev = ?ev
      and error_str = "''quota''" and turn_count = 0 and turns = "[]"]
  note Tq = retry_loop_policy [where client = quota_client and st = ?st0 and retry_attempt = 4
      and rest = "[]" and ev = ?ev
      and error_str = "''quota''" and turn_count = 0 and turns = "[]"]
  note Tx = retry_loop_policy [where client = broken_client and st = ?st0 and retry_attempt = 0
      and rest = "[1, 2, 3, 4]" and ev = ?ev
      and error_str = "''quota''" and turn_count = 0 and turns = "[]"]
  have f0: "flaky_client (api_calls ?st0) = RaisesAPIError ''ServerError'' ''500 INTERNAL''"
    by (simp add: flaky_client_def initial_state_def)
  have "retry_loop ?ev flaky_client (0 # [1, 2, 3, 4]) ?st0
     = retry_loop ?ev flaky_client [1, 2, 3, 4]
         (?st0\<lparr>api_calls := Suc (api_calls ?st0),
             tool_logs := tool_logs ?st0 @
               [''[ERROR] API Quota/Server Error. Retrying in ''
                  @ e_fmt2f ?ev (wait_time ?ev 0 (api_calls ?st0)) @ ''s...''],
             sleeps := sleeps ?st0 @ [wait_time ?ev 0 (api_calls ?st0)]\<rparr>)"
    using Tf [THEN conjunct2, THEN conjunct1, rule_format, OF f0 sample_retryable(1)] by simp
  also have "\<dots> = retry_loop ?ev flaky_client [1, 2, 3, 4]
     (?st0\<lparr>api_calls := 1,
        tool_logs := [''[ERROR] API Quota/Server Error. Retrying in 1.00s...''],
        sleeps := [1]\<rparr>)"
    using sample_fmt [of None 0] by (simp add: sample_wait sample_numbers initial_state_def)
  finally have fl: "retry_loop ?ev flaky_client [0..<5] ?st0
     = (Got (Some json_stub),
        ?st0\<lparr>api_calls := 3,
          tool_logs := [''[ERROR] API Quota/Server Error. Retrying in 1.00s...'',
                        ''[ERROR] API Quota/Server Error. Retrying in 2.00s...''],
          sleeps := [1, 2], last_response := Some json_stub\<rparr>)"
    by (simp only: flaky_tail range_5)
  have b0: "bad_request_client (api_calls ?st0) = RaisesAPIError ''ClientError'' ''400 INVALID_ARGUMENT''"
    by (simp add: bad_request_client_def)
  have w4: "fst (retry_loop ?ev bad_request_client [0..<5] ?st0)
       = Failed (None, Some ''Error: 400 INVALID_ARGUMENT'', [],
           [''Fatal API Error after 5 retries: ClientError - 400 INVALID_ARGUMENT''])"
    using Tb [THEN conjunct2, THEN conjunct2, THEN conjunct1, rule_format, OF b0] sample_retryable(3)
    by (simp add: range_5 initial_state_def)
  have q0: "quota_client (api_calls ?st0) = RaisesAPIError ''ClientError'' ''429 RESOURCE_EXHAUSTED''"
    by (simp add: quota_client_def)
  have w5: "fst (retry_loop ?ev quota_client [4] ?st0)
       = Failed (None, Some ''Error: 429 RESOURCE_EXHAUSTED'', [],
           [''Fatal API Error after 5 retries: ClientError - 429 RESOURCE_EXHAUSTED''])"
    using Tq [THEN conjunct2, THEN conjunct2, THEN conjunct1, rule_format, OF q0]
    by (simp add: initial_state_def)
  have w6: "sleeps (snd (retry_loop ?ev quota_client [0..<5] ?st0)) = [1, 2, 4, 8]"
    unfolding range_5 quota_run by simp
  have x0: "broken_client (api_calls ?st0) = RaisesException ''connection reset''"
    by (simp add: broken_client_def)
  have w7: "fst (retry_loop ?ev broken_client [0..<5] ?st0)
       = Failed (None, Some ''Error: Unexpected Runtime Issue.'', [],
           [''Unexpected Error: connection reset''])"
    using Tx [THEN conjunct2, THEN conjunct2, THEN conjunct2, THEN conjunct1, rule_format, OF x0]
    by (simp add: range_5 initial_state_def)
  let ?ev' = "sample_env (Some bad_request_client)"
  let ?st1 = "initial_state (build_patient_contents ?ev' ''cough'' None None None None None)"
  note Tr = retry_loop_policy [where client = bad_request_client and st = ?st1 and retry_attempt = 0
      and rest = "[1, 2, 3, 4]" and ev = ?ev' and turn_count = 0 and turns = "[1, 2, 3, 4]"
      and error_str = "''quota''"]
  obtain r st' where rl: "retry_loop ?ev' bad_request_client [0..<MAX_RETRIES]
      (snd (choose_config 0 (?st1\<lparr>turns_started := Suc (turns_started ?st1)\<rparr>))) = (r, st')"
    by (cases "retry_loop ?ev' bad_request_client [0..<MAX_RETRIES]
      (snd (choose_config 0 (?st1\<lparr>turns_started := Suc (turns_started ?st1)\<rparr>)))")
  have r: "r = Failed (None, Some ''Error: 400 INVALID_ARGUMENT'', [],
           [''Fatal API Error after 5 retries: ClientError - 400 INVALID_ARGUMENT''])"
    using rl sample_retryable(3)
    by (simp add: MAX_RETRIES_def range_5 choose_config_def initial_state_def bad_request_client_def
        str_of_int_5 Let_def)
  have tl: "turn_loop ?ev' bad_request_client [0..<MAX_TURNS] ?st1
      = (Return (None, Some ''Error: 400 INVALID_ARGUMENT'', [],
           [''Fatal API Error after 5 retries: ClientError - 400 INVALID_ARGUMENT'']), st')"
    using Tr [THEN conjunct2, THEN conjunct2, THEN conjunct2, THEN conjunct2, THEN conjunct2, rule_format, OF rl [unfolded r]]
    by (simp add: MAX_TURNS_def range_5)
  have cl: "e_client ?ev' = Some bad_request_client" by (simp add: sample_env_def)
  have w8: "run_triage_agent ?ev' ''cough'' None None None None None
       = Inr (None, Some ''Error: 400 INVALID_ARGUMENT'', [],
           [''Fatal API Error after 5 retries: ClientError - 400 INVALID_ARGUMENT''])"
    by (simp add: run_triage_agent_def run_state_cases [OF cl tl])
  from fl w4 w5 w6 w7 w8 show ?thesis by simp
qed

section \<open>The repair functions\<close>

text \<open>
  C6: a valid JSON document with its last two closing braces deleted. The brace loop of
  \<^verbatim>\<open>_repair_json\<close> never breaks, so \<^verbatim>\<open>end_idx\<close> is still \<^verbatim>\<open>start_idx\<close> and the
  text is cut after its first brace before two braces are appended: the candidate is
  \<^verbatim>\<open>{}}\<close>, which does not parse. The line has an even number of quotes, so
  \<^verbatim>\<open>_repair_json_aggressive\<close> finds no issue. The cascade returns \<^verbatim>\<open>None\<close>.
\<close>

theorem repair_cascade_two_braces_missing:
  \<open>json_loads (''{"a": {"b": 1'' @ ''}}'') = Some (JObj [(ustr ''a'', JObj [(ustr ''b'', JInt 1)])])
   \<and> balance_braces ''{"a": {"b": 1'' 0 = ''{}}''
   \<and> json_loads ''{}}'' = None
   \<and> repair_json ''{"a": {"b": 1'' = None
   \<and> repair_json_aggressive ''{"a": {"b": 1'' = None
   \<and> repair_cascade ''{"a": {"b": 1'' = None\<close>
  by code_simp

section \<open>The fallback merge\<close>

lemma dict_set_same: "map_of d k = Some v \<Longrightarrow> dict_set k v d = d"
  by (induction d) (auto split: if_splits)

lemma map_of_dict_set_apply: "map_of (dict_set k v d) x = (if x = k then Some v else map_of d x)"
  by (induction d) auto

lemma map_of_dict_update:
  "distinct (map fst other) \<Longrightarrow>
   map_of (dict_update d other) x = (case map_of other x of None \<Rightarrow> map_of d x | Some v \<Rightarrow> Some v)"
proof (induction other arbitrary: d)
  case Nil
  then show ?case by simp
next
  case (Cons kv other)
  obtain k v where kv: "kv = (k, v)" by (cases kv)
  from Cons.prems kv have nk: "map_of other k = None" and d: "distinct (map fst other)"
    by (auto simp: map_of_eq_None_iff)
  show ?case
    using Cons.IH [OF d, of "dict_set k v d"] nk kv
    by (auto simp: map_of_dict_set_apply split: option.splits)
qed

lemma dict_update_present:
  "(\<forall>(k, v) \<in> set other. map_of d k = Some v) \<Longrightarrow> dict_update d other = d"
  by (induction other) (auto simp: dict_set_same)

lemma dict_update_idem:
  assumes "distinct (map fst other)"
  shows "dict_update (dict_update d other) other = dict_update d other"
proof (rule dict_update_present)
  show "\<forall>(k, v) \<in> set other. map_of (dict_update d other) k = Some v"
    using assms by (auto simp: map_of_dict_update)
qed

lemma dict_update_self: "distinct (map fst d) \<Longrightarrow> dict_update d d = d"
  by (rule dict_update_present) auto

lemma map_of_without:
  "map_of (filter (\<lambda>(k, v). k \<noteq> t) f) x = (if x = t then None else map_of f x)"
  by (induction f) auto

lemma distinct_without:
  "distinct (map fst f) \<Longrightarrow> distinct (map fst (filter (\<lambda>(k, v). k \<noteq> t) f))"
  by (simp add: distinct_map_filter)

lemma or_empty_JObj: "or_empty (JObj d) = JObj d"
  by (simp add: or_empty_def)

text \<open>The two shapes of a successful merge.\<close>

lemma merge_fallback_cases:
  assumes "merge_fallback rep f = Inr r'"
  obtains
    (both) new existing e n where
      "map_of f tvd_key = Some new"
      "map_of (case rep of None \<Rightarrow> [] | Some r \<Rightarrow> r) tvd_key = Some existing"
      "or_empty existing = JObj e" "or_empty new = JObj n"
      "r' = dict_update
              (dict_set tvd_key (JObj (dict_update e n)) (case rep of None \<Rightarrow> [] | Some r \<Rightarrow> r))
              (filter (\<lambda>(k, v). k \<noteq> tvd_key) f)"
  | (plain)
      "map_of f tvd_key = None \<or> map_of (case rep of None \<Rightarrow> [] | Some r \<Rightarrow> r) tvd_key = None"
      "r' = dict_update (case rep of None \<Rightarrow> [] | Some r \<Rightarrow> r) f"
  using assms
  by (auto simp: merge_fallback_def dict_get_def Let_def split: option.splits json.splits)

lemma merge_fallback_both_get:
  assumes "distinct (map fst f)"
  shows "map_of (dict_update (dict_set tvd_key m r1) (filter (\<lambda>(k, v). k \<noteq> tvd_key) f)) x
         = (if x = tvd_key then Some m else (case map_of f x of None \<Rightarrow> map_of r1 x | Some v \<Rightarrow> Some v))"
  using assms
  by (auto simp: map_of_dict_update distinct_without map_of_without map_of_dict_set_apply
      split: option.splits)

lemma merge_fallback_idem:
  assumes d: "distinct (map fst f)"
    and m: "merge_fallback rep f = Inr r'"
    and t: "map_of f tvd_key = None \<or> (\<exists>n. map_of f tvd_key = Some (JObj n) \<and> distinct (map fst n))"
  shows "merge_fallback (Some r') f = Inr r'"
  using m
proof (cases rule: merge_fallback_cases)
  case (both new existing e n)
  let ?W = "filter (\<lambda>(k, v). k \<noteq> tvd_key) f"
  let ?M = "dict_update e n"
  from t both(1) obtain n0 where n0: "new = JObj n0" "distinct (map fst n0)" by auto
  with both(4) have nn: "n = n0" by (simp add: or_empty_JObj)
  have g: "\<And>x. map_of r' x
      = (if x = tvd_key then Some (JObj ?M)
         else (case map_of f x of None \<Rightarrow> map_of (case rep of None \<Rightarrow> [] | Some r \<Rightarrow> r) x
               | Some v \<Rightarrow> Some v))"
    unfolding both(5) by (rule merge_fallback_both_get [OF d])
  have M: "dict_update ?M n = ?M"
    using n0 nn by (simp add: dict_update_idem)
  have s: "dict_set tvd_key (JObj ?M) r' = r'"
    by (rule dict_set_same) (simp add: g)
  have w: "dict_update r' ?W = r'"
    by (rule dict_update_present) (auto simp: g dest!: map_of_is_SomeI [OF d])
  show ?thesis
    using both(1) n0 nn g [of tvd_key] M s w
    by (simp add: merge_fallback_def dict_get_def or_empty_JObj)
next
  case plain
  have g: "\<And>x. map_of r' x
      = (case map_of f x of None \<Rightarrow> map_of (case rep of None \<Rightarrow> [] | Some r \<Rightarrow> r) x
         | Some v \<Rightarrow> Some v)"
    unfolding plain(2) by (rule map_of_dict_update [OF d])
  have u: "dict_update r' f = r'"
    unfolding plain(2) by (rule dict_update_idem [OF d])
  show ?thesis
  proof (cases "map_of f tvd_key")
    case None
    then show ?thesis using u by (simp add: merge_fallback_def dict_get_def)
  next
    case (Some new)
    with t obtain n0 where n0: "new = JObj n0" "distinct (map fst n0)" by auto
    let ?W = "filter (\<lambda>(k, v). k \<noteq> tvd_key) f"
    have r: "map_of r' tvd_key = Some (JObj n0)"
      using Some n0 by (simp add: g)
    have s: "dict_set tvd_key (JObj n0) r' = r'"
      by (rule dict_set_same) (rule r)
    have w: "dict_update r' ?W = r'"
      by (rule dict_update_present) (auto simp: g dest!: map_of_is_SomeI [OF d])
    show ?thesis
      using Some n0 r s w
      by (simp add: merge_fallback_def dict_get_def or_empty_JObj dict_update_self)
  qed
qed

text \<open>
  C7, as the claim states it: no truthy field of the existing report is overwritten and
  the fallback never overwrites an existing sub-key of \<^verbatim>\<open>tool_verification_data\<close>.
  A report with an urgency and a risk score but no differential diagnosis goes to the
  fallback; the merge replaces its urgency and its risk score by the fallback's.
\<close>

theorem merge_fallback_overwrite_counterexample:
  "fallback_step
     (Some [(ustr ''triage_urgency'', JStr (ustr ''RED'')),
            (tvd_key, JObj [(ustr ''sepsis_risk'', JInt 5)])])
     (Some [(ustr ''triage_urgency'', JStr (ustr ''GREEN'')),
            (tvd_key, JObj [(ustr ''sepsis_risk'', JInt 7)])])
   = Inr (Some [(ustr ''triage_urgency'', JStr (ustr ''GREEN'')),
                (tvd_key, JObj [(ustr ''sepsis_risk'', JInt 7)])])
   \<and> truthy (JStr (ustr ''RED'')) \<and> truthy (JInt 5)"
  by code_simp

text \<open>
  C7, amended. When the merge succeeds: every top-level field of the fallback replaces
  the report's field of that name, truthy or not; a field the fallback lacks keeps its
  value; \<^verbatim>\<open>tool_verification_data\<close>, when both have it, is the key-by-key union of the
  two mappings in which the fallback's sub-keys win, and is the fallback's when only the
  fallback has it; merging the same fallback data once more changes nothing, provided
  the fallback's \<^verbatim>\<open>tool_verification_data\<close> is a mapping or absent; and a report that
  is already complete (a differential diagnosis and a risk score) is not merged at all.
\<close>

theorem merge_fallback_overwrites:
  assumes d: "distinct (map fst f)"
    and m: "merge_fallback rep f = Inr r'"
  shows "(\<forall>k v. k \<noteq> tvd_key \<longrightarrow> dict_get f k = Some v \<longrightarrow> dict_get r' k = Some v)
    \<and> (\<forall>k. dict_get f k = None \<longrightarrow>
           dict_get r' k = dict_get (case rep of None \<Rightarrow> [] | Some r \<Rightarrow> r) k)
    \<and> (\<forall>new. dict_get f tvd_key = Some new \<longrightarrow>
           dict_get (case rep of None \<Rightarrow> [] | Some r \<Rightarrow> r) tvd_key = None \<longrightarrow>
           dict_get r' tvd_key = Some new)
    \<and> (\<forall>new existing. dict_get f tvd_key = Some new \<longrightarrow>
           dict_get (case rep of None \<Rightarrow> [] | Some r \<Rightarrow> r) tvd_key = Some existing \<longrightarrow>
           (\<exists>e n. or_empty existing = JObj e \<and> or_empty new = JObj n
              \<and> dict_get r' tvd_key = Some (JObj (dict_update e n))
              \<and> (distinct (map fst n) \<longrightarrow>
                   (\<forall>x. dict_get (dict_update e n) x
                        = (case dict_get n x of None \<Rightarrow> dict_get e x | Some w \<Rightarrow> Some w)))))
    \<and> (dict_get f tvd_key = None
          \<or> (\<exists>n. dict_get f tvd_key = Some (JObj n) \<and> distinct (map fst n))
        \<longrightarrow> merge_fallback (Some r') f = Inr r')
    \<and> (\<forall>fb. \<not> needs_fallback rep \<longrightarrow> fallback_step rep fb = Inr rep)"
proof -
  let ?r1 = "case rep of None \<Rightarrow> [] | Some r \<Rightarrow> r"
  have g: "\<And>x. x \<noteq> tvd_key \<Longrightarrow>
      map_of r' x = (case map_of f x of None \<Rightarrow> map_of ?r1 x | Some v \<Rightarrow> Some v)"
    using m
  proof (cases rule: merge_fallback_cases)
    case (both new existing e n)
    fix x :: ustring assume "x \<noteq> tvd_key"
    then show "map_of r' x = (case map_of f x of None \<Rightarrow> map_of ?r1 x | Some v \<Rightarrow> Some v)"
      unfolding both(5) by (simp add: merge_fallback_both_get [OF d])
  next
    case plain
    fix x :: ustring
    show "map_of r' x = (case map_of f x of None \<Rightarrow> map_of ?r1 x | Some v \<Rightarrow> Some v)"
      unfolding plain(2) by (rule map_of_dict_update [OF d])
  qed
  have c1: "\<forall>k v. k \<noteq> tvd_key \<longrightarrow> dict_get f k = Some v \<longrightarrow> dict_get r' k = Some v"
    by (simp add: dict_get_def g)
  have c2: "\<forall>k. dict_get f k = None \<longrightarrow> dict_get r' k = dict_get ?r1 k"
  proof (intro allI impI)
    fix k assume n: "dict_get f k = None"
    from m show "dict_get r' k = dict_get ?r1 k"
    proof (cases rule: merge_fallback_cases)
      case (both new existing e n')
      with n have "k \<noteq> tvd_key" by (auto simp: dict_get_def)
      with n show ?thesis by (simp add: dict_get_def g)
    next
      case plain
      with n show ?thesis by (simp add: dict_get_def map_of_dict_update [OF d])
    qed
  qed
  have c3: "\<forall>new. dict_get f tvd_key = Some new \<longrightarrow> dict_get ?r1 tvd_key = None \<longrightarrow>
      dict_get r' tvd_key = Some new"
  proof (intro allI impI)
    fix new assume a: "dict_get f tvd_key = Some new" "dict_get ?r1 tvd_key = None"
    from m show "dict_get r' tvd_key = Some new"
    proof (cases rule: merge_fallback_cases)
      case (both new' existing e n)
      with a show ?thesis by (simp add: dict_get_def)
    next
      case plain
      with a show ?thesis by (simp add: dict_get_def map_of_dict_update [OF d])
    qed
  qed
  have c4: "\<forall>new existing. dict_get f tvd_key = Some new \<longrightarrow>
      dict_get ?r1 tvd_key = Some existing \<longrightarrow>
      (\<exists>e n. or_empty existing = JObj e \<and> or_empty new = JObj n
         \<and> dict_get r' tvd_key = Some (JObj (dict_update e n))
         \<and> (distinct (map fst n) \<longrightarrow>
              (\<forall>x. dict_get (dict_update e n) x
                   = (case dict_get n x of None \<Rightarrow> dict_get e x | Some w \<Rightarrow> Some w))))"
  proof (intro allI impI)
    fix new existing
    assume a: "dict_get f tvd_key = Some new" "dict_get ?r1 tvd_key = Some existing"
    from m show "\<exists>e n. or_empty existing = JObj e \<and> or_empty new = JObj n
         \<and> dict_get r' tvd_key = Some (JObj (dict_update e n))
         \<and> (distinct (map fst n) \<longrightarrow>
              (\<forall>x. dict_get (dict_update e n) x
                   = (case dict_get n x of None \<Rightarrow> dict_get e x | Some w \<Rightarrow> Some w)))"
    proof (cases rule: merge_fallback_cases)
      case (both new' existing' e n)
      have "dict_get r' tvd_key = Some (JObj (dict_update e n))"
        unfolding both(5) by (simp add: dict_get_def merge_fallback_both_get [OF d])
      moreover have "distinct (map fst n) \<longrightarrow>
          (\<forall>x. dict_get (dict_update e n) x
               = (case dict_get n x of None \<Rightarrow> dict_get e x | Some w \<Rightarrow> Some w))"
        by (auto simp: dict_get_def map_of_dict_update split: option.splits)
      ultimately show ?thesis using both a by (auto simp: dict_get_def)
    next
      case plain
      with a show ?thesis by (auto simp: dict_get_def)
    qed
  qed
  have c5: "dict_get f tvd_key = None
      \<or> (\<exists>n. dict_get f tvd_key = Some (JObj n) \<and> distinct (map fst n))
      \<longrightarrow> merge_fallback (Some r') f = Inr r'"
    using merge_fallback_idem [OF d m] by (simp add: dict_get_def)
  have c6: "\<forall>fb. \<not> needs_fallback rep \<longrightarrow> fallback_step rep fb = Inr rep"
    by (simp add: fallback_step_def)
  from c1 c2 c3 c4 c5 c6 show ?thesis by blast
qed

theorem merge_fallback_overwrites_witness:
  "merge_fallback (Some sample_report) sample_fallback = Inr sample_merged
   \<and> dict_get sample_merged (ustr ''triage_urgency'') = Some (JStr (ustr ''GREEN''))
   \<and> dict_get sample_merged (ustr ''evidence_summary'') = Some (JStr (ustr ''fever''))
   \<and> dict_get sample_merged tvd_key
       = Some (JObj (dict_update
            [(ustr ''sepsis_risk'', JInt 5), (ustr ''visualization_base64'', JStr (ustr ''iVBOR''))]
            [(ustr ''sepsis_risk'', JInt 7)]))
   \<and> dict_get (dict_update
            [(ustr ''sepsis_risk'', JInt 5), (ustr ''visualization_base64'', JStr (ustr ''iVBOR''))]
            [(ustr ''sepsis_risk'', JInt 7)]) (ustr ''sepsis_risk'') = Some (JInt 7)
   \<and> merge_fallback (Some sample_merged) sample_fallback = Inr sample_merged
   \<and> merge_fallback None sample_fallback = Inr sample_fallback
   \<and> dict_get sample_fallback tvd_key = Some (JObj [(ustr ''sepsis_risk'', JInt 7)])
   \<and> fallback_step (Some sample_merged) (Some sample_fallback) = Inr (Some sample_merged)"
proof -
  let ?e = "[(ustr ''sepsis_risk'', JInt 5), (ustr ''visualization_base64'', JStr (ustr ''iVBOR''))]"
  let ?n = "[(ustr ''sepsis_risk'', JInt 7)]"
  have d: "distinct (map fst sample_fallback)" by code_simp
  have m: "merge_fallback (Some sample_report) sample_fallback = Inr sample_merged" by code_simp
  have m0: "merge_fallback None sample_fallback = Inr sample_fallback" by code_simp
  note T = merge_fallback_overwrites [OF d m]
  note T0 = merge_fallback_overwrites [OF d m0]
  have k1: "ustr ''triage_urgency'' \<noteq> tvd_key" by code_simp
  have f1: "dict_get sample_fallback (ustr ''triage_urgency'') = Some (JStr (ustr ''GREEN''))"
    by code_simp
  have f2: "dict_get sample_fallback (ustr ''evidence_summary'') = None" by code_simp
  have f3: "dict_get sample_fallback tvd_key = Some (JObj ?n)" by code_simp
  have r2: "dict_get sample_report (ustr ''evidence_summary'') = Some (JStr (ustr ''fever''))"
    by code_simp
  have r3: "dict_get sample_report tvd_key = Some (JObj ?e)" by code_simp
  have dn: "distinct (map fst ?n)" by simp
  have w1: "dict_get sample_merged (ustr ''triage_urgency'') = Some (JStr (ustr ''GREEN''))"
    using T k1 f1 by blast
  have w2: "dict_get sample_merged (ustr ''evidence_summary'') = Some (JStr (ustr ''fever''))"
    using T f2 r2 by simp
  from T f3 r3 obtain e n where en: "or_empty (JObj ?e) = JObj e" "or_empty (JObj ?n) = JObj n"
      "dict_get sample_merged tvd_key = Some (JObj (dict_update e n))"
      "distinct (map fst n) \<longrightarrow>
         (\<forall>x. dict_get (dict_update e n) x
              = (case dict_get n x of None \<Rightarrow> dict_get e x | Some w \<Rightarrow> Some w))"
    by (simp del: dict_update.simps) blast
  from en(1,2) have ee: "e = ?e" "n = ?n" by (simp_all add: or_empty_JObj)
  have w3: "dict_get sample_merged tvd_key = Some (JObj (dict_update ?e ?n))"
    using en(3) ee by simp
  have w4: "dict_get (dict_update ?e ?n) (ustr ''sepsis_risk'') = Some (JInt 7)"
    using en(4) ee dn by (simp add: dict_get_def)
  have w5: "merge_fallback (Some sample_merged) sample_fallback = Inr sample_merged"
    using T f3 dn by blast
  have nr: "dict_get (case None of None \<Rightarrow> [] | Some r \<Rightarrow> r) tvd_key = (None :: json option)"
    by (simp add: dict_get_def)
  have w6: "dict_get sample_fallback tvd_key = Some (JObj ?n)"
    using T0 f3 nr by blast
  have c: "\<not> needs_fallback (Some sample_merged)" by code_simp
  have w7: "fallback_step (Some sample_merged) (Some sample_fallback) = Inr (Some sample_merged)"
    using merge_fallback_overwrites [OF d w5] c by blast
  from m w1 w2 w3 w4 w5 m0 w6 w7 show ?thesis by blast
qed

text \<open>
  C10: whatever the input, a string returned by \<^verbatim>\<open>_repair_json\<close> (by its body, or by
  the prefix search of its handler) or by \<^verbatim>\<open>_repair_json_aggressive\<close> parses as JSON;
  an input that is empty or all white space, or has no opening brace, gives \<^verbatim>\<open>None\<close>
  from both.
\<close>

theorem repair_returns_none_or_valid_json:
  "(\<forall>r. repair_json s = Some r \<longrightarrow> json_loads r \<noteq> None)
   \<and> (\<forall>r i. repair_json_handler s i = Some r \<longrightarrow> json_loads r \<noteq> None)
   \<and> (\<forall>r. repair_json_aggressive s = Some r \<longrightarrow> json_loads r \<noteq> None)
   \<and> ((\<forall>c \<in> set s. py_isspace c) \<or> CHR ''{'' \<notin> set s
        \<longrightarrow> repair_json s = None \<and> repair_json_aggressive s = None)"
  using repair_json_valid repair_json_handler_valid repair_json_aggressive_valid
    repair_json_blank repair_json_aggressive_blank
    repair_json_no_brace repair_json_aggressive_no_brace
  by blast

theorem repair_returns_none_or_valid_json_witness:
  \<open>repair_json ''{"a": "xy'' = Some ''{}''
   \<and> json_loads ''{}'' \<noteq> None
   \<and> repair_json_handler ''{"a": 1'' 7 = Some ''{"a": 1}''
   \<and> json_loads ''{"a": 1}'' \<noteq> None
   \<and> repair_json_aggressive (''{"a": "x,'' @ [newline] @ ''"b": 2}'')
       = Some (''{"a": "x",'' @ [newline] @ ''"b": 2}'')
   \<and> json_loads (''{"a": "x",'' @ [newline] @ ''"b": 2}'') \<noteq> None
   \<and> repair_json ''  '' = None \<and> repair_json_aggressive ''  '' = None
   \<and> repair_json ''[1, 2'' = None \<and> repair_json_aggressive ''[1, 2'' = None\<close>
proof -
  have e1: \<open>repair_json ''{"a": "xy'' = Some ''{}''\<close>
    by code_simp
  have e2: \<open>repair_json_handler ''{"a": 1'' 7 = Some ''{"a": 1}''\<close>
    by code_simp
  have e3: \<open>repair_json_aggressive (''{"a": "x,'' @ [newline] @ ''"b": 2}'')
       = Some (''{"a": "x",'' @ [newline] @ ''"b": 2}'')\<close>
    by code_simp
  have b: "\<forall>c \<in> set ''  ''. py_isspace c"
    by (simp add: py_isspace_def)
  have n: "CHR ''{'' \<notin> set ''[1, 2''"
    by simp
  show ?thesis
    using e1 e2 e3
      repair_returns_none_or_valid_json [of \<open>''{"a": "xy''\<close>]
      repair_returns_none_or_valid_json [of \<open>''{"a": 1''\<close>]
      repair_returns_none_or_valid_json [of \<open>''{"a": "x,'' @ [newline] @ ''"b": 2}''\<close>]
      repair_returns_none_or_valid_json [of \<open>''  ''\<close>] b
      repair_returns_none_or_valid_json [of \<open>''[1, 2''\<close>] n
    by blast
qed

section \<open>Properties of the sepsis score\<close>






end
